theory Spec2Isabelle
  imports Complex_Main
begin

section \<open>Python values and exceptions\<close>

text \<open>
  The values that travel in Jupyter messages, in connection descriptors and in the
  output of \<^verbatim>\<open>json.load\<close>: \<^verbatim>\<open>None\<close>, booleans, integers, strings, lists and
  dictionaries. A dictionary is an association list in insertion order; a later entry
  for a key overrides an earlier one, as a later assignment does in Python.
\<close>

datatype json =
    JNull
  | JBool bool
  | JInt int
  | JStr string
  | JArr "json list"
  | JObj "(string \<times> json) list"

type_synonym dict = "(string \<times> json) list"

text \<open>The exceptions the modelled code raises or lets through.\<close>

datatype error =
    TimeoutError string
  | TypeError
  | KeyError string
  | AttributeError
  | JSONDecodeError
  | NoSuchKernel
  | RuntimeError string
  | OSError string

text \<open>\<^verbatim>\<open>d.get(k)\<close>: the value of the last entry for \<open>k\<close>, or \<^verbatim>\<open>None\<close>.\<close>

definition dict_get :: "dict \<Rightarrow> string \<Rightarrow> json option" where
  "dict_get d k = map_of (rev d) k"

text \<open>\<^verbatim>\<open>d[k]\<close>: raises \<^verbatim>\<open>KeyError\<close> on a missing key.\<close>

definition dict_item :: "dict \<Rightarrow> string \<Rightarrow> error + json" where
  "dict_item d k = (case dict_get d k of None \<Rightarrow> Inl (KeyError k) | Some v \<Rightarrow> Inr v)"

text \<open>
  \<^verbatim>\<open>v[k]\<close> for a string key on any value: only a dictionary can be subscripted by a
  string; every other value raises \<^verbatim>\<open>TypeError\<close>.
\<close>

fun subscript :: "json \<Rightarrow> string \<Rightarrow> error + json" where
  "subscript (JObj d) k = dict_item d k"
| "subscript _ k = Inl TypeError"

text \<open>Python truthiness, as \<^verbatim>\<open>if x\<close>, \<^verbatim>\<open>not x\<close> and \<^verbatim>\<open>while not x\<close> read a value.\<close>

fun truthy :: "json \<Rightarrow> bool" where
  "truthy JNull = False"
| "truthy (JBool b) = b"
| "truthy (JInt i) = (i \<noteq> 0)"
| "truthy (JStr s) = (s \<noteq> [])"
| "truthy (JArr xs) = (xs \<noteq> [])"
| "truthy (JObj d) = (d \<noteq> [])"

text \<open>An optional value, \<^verbatim>\<open>None\<close> when absent.\<close>

fun truthy_opt :: "json option \<Rightarrow> bool" where
  "truthy_opt None = False"
| "truthy_opt (Some v) = truthy v"

subsection \<open>Decimal rendering of integers\<close>

text \<open>What \<^verbatim>\<open>print(n)\<close> and \<^verbatim>\<open>f"{n}"\<close> write for an integer.\<close>

definition digit_char :: "nat \<Rightarrow> char" where
  "digit_char d = ''0123456789'' ! (d mod 10)"

fun string_of_nat :: "nat \<Rightarrow> string" where
  "string_of_nat n =
     (if n < 10 then [digit_char n] else string_of_nat (n div 10) @ [digit_char (n mod 10)])"

declare string_of_nat.simps [simp del]

definition string_of_int :: "int \<Rightarrow> string" where
  "string_of_int i = (if i < 0 then CHR ''-'' # string_of_nat (nat (- i)) else string_of_nat (nat i))"

section \<open>The bootstrap agent (src/ansible/files/hydra\_agent.py)\<close>

text \<open>
  The command line as \<^verbatim>\<open>argparse\<close> sees it. \<^verbatim>\<open>--id\<close> and \<^verbatim>\<open>--kernel\<close> are required;
  the other options may be absent.
\<close>

record cli =
  cli_id :: string
  cli_kernel :: string
  cli_timeout :: "string option"
  cli_launcher :: "string option"
  cli_log_to_file :: "bool option"

text \<open>
  The value of \<^verbatim>\<open>args.timeout\<close>. The option is declared with \<^verbatim>\<open>default=10\<close> and no
  \<^verbatim>\<open>type=\<close>, so \<^verbatim>\<open>argparse\<close> keeps the integer 10 when the option is absent and the
  raw command-line string when it is given.
\<close>

datatype pyval = PyInt int | PyStr string

record args =
  args_id :: string
  args_kernel :: string
  args_timeout :: pyval
  args_launcher :: string
  args_log_to_file :: bool

definition parse_args :: "cli \<Rightarrow> args" where
  "parse_args c =
     \<lparr> args_id = cli_id c,
       args_kernel = cli_kernel c,
       args_timeout = (case cli_timeout c of None \<Rightarrow> PyInt 10 | Some s \<Rightarrow> PyStr s),
       args_launcher = (case cli_launcher c of None \<Rightarrow> ''hydra-subkernel'' | Some l \<Rightarrow> l),
       args_log_to_file = (case cli_log_to_file c of None \<Rightarrow> True | Some b \<Rightarrow> b) \<rparr>"

text \<open>
  The agent's surroundings: the runtime directory, the launch of the engine process
  (its process id, or the exception of \<^verbatim>\<open>Popen\<close>), and what the agent observes at the
  \<open>n\<close>-th evaluation of the loop (counting from 0): whether the descriptor file exists
  and what \<^verbatim>\<open>kernel.poll()\<close> returns (\<open>None\<close> while the process is alive, its exit status
  afterwards). The clock is idealised: every \<^verbatim>\<open>time.sleep(0.1)\<close> lasts exactly a tenth
  of a second and nothing else takes time, so the \<open>n\<close>-th evaluation happens \<open>n / 10\<close>
  seconds after \<^verbatim>\<open>start\<close>.
\<close>

record agent_env =
  jupyter_runtime_dir :: string
  popen :: "string \<Rightarrow> error + nat"
  path_exists :: "nat \<Rightarrow> bool"
  kernel_poll :: "nat \<Rightarrow> int option"
  read_connection_file :: "error + string"

text \<open>\<^verbatim>\<open>os.path.join\<close> of a directory and one component.\<close>

definition path_join :: "string \<Rightarrow> string \<Rightarrow> string" where
  "path_join a b =
     (if b \<noteq> [] \<and> hd b = CHR ''/'' then b
      else if a = [] \<or> last a = CHR ''/'' then a @ b
      else a @ ''/'' @ b)"

definition connection_file :: "agent_env \<Rightarrow> args \<Rightarrow> string" where
  "connection_file env a = path_join (jupyter_runtime_dir env) (''kernel-'' @ args_id a @ ''.json'')"

definition log_file :: "agent_env \<Rightarrow> args \<Rightarrow> string" where
  "log_file env a = path_join (jupyter_runtime_dir env) (''kernel-'' @ args_id a @ ''.log'')"

definition cmd_str :: "agent_env \<Rightarrow> args \<Rightarrow> string" where
  "cmd_str env a =
     (let c = args_launcher a @ '' --kernel '' @ args_kernel a
              @ '' --KernelManager.connection_file '' @ connection_file env a
      in if args_log_to_file a then c @ '' --log-file '' @ log_file env a else c)"

text \<open>
  \<^verbatim>\<open>time.perf_counter() - start > args.timeout\<close>: a float against the integer default
  compares; a float against a string raises \<^verbatim>\<open>TypeError\<close>.
\<close>

fun elapsed_exceeds :: "real \<Rightarrow> pyval \<Rightarrow> error + bool" where
  "elapsed_exceeds e (PyInt t) = Inr (e > real_of_int t)"
| "elapsed_exceeds e (PyStr s) = Inl TypeError"

text \<open>
  The body of the \<^verbatim>\<open>if\<close> at lines 52 to 58. The first assignment to \<^verbatim>\<open>msg\<close> (the exit
  status) is followed by an unconditional second one, so only the second survives.
\<close>

definition timeout_failure :: "agent_env \<Rightarrow> args \<Rightarrow> int option \<Rightarrow> error" where
  "timeout_failure env a ret =
     (let msg = (case ret of
                   Some r \<Rightarrow> Some (''Kernel failed with status '' @ string_of_int r @ ''.'')
                 | None \<Rightarrow> None);
          msg = ''Failed to find connection file, did the kernel fail to start?'';
          msg = (if args_log_to_file a then msg @ '' See '' @ log_file env a @ '' for details.''
                 else msg)
      in TimeoutError msg)"

text \<open>The polling loop, lines 50 to 59; \<open>n\<close> counts the sleeps done so far.\<close>

function poll_loop :: "agent_env \<Rightarrow> args \<Rightarrow> nat \<Rightarrow> error + unit" where
  "poll_loop env a n =
     (if path_exists env n then Inr ()
      else case elapsed_exceeds (real n / 10) (args_timeout a) of
             Inl e \<Rightarrow> Inl e
           | Inr True \<Rightarrow> Inl (timeout_failure env a (kernel_poll env n))
           | Inr False \<Rightarrow> poll_loop env a (Suc n))"
  by pat_completeness auto
termination
  apply (relation "measure (\<lambda>(env, a, n).
           case args_timeout a of PyInt t \<Rightarrow> nat (10 * t) + 1 - n | PyStr s \<Rightarrow> 0)")
   apply simp
  apply (auto split: pyval.splits)
  done

text \<open>
  The whole script: the result is what it writes to standard output (the process id,
  then the descriptor file's contents, each followed by the newline of \<^verbatim>\<open>print\<close>),
  or the exception that ends it.
\<close>

definition hydra_agent :: "agent_env \<Rightarrow> cli \<Rightarrow> error + string" where
  "hydra_agent env c =
     (let a = parse_args c in
      case popen env (cmd_str env a) of
        Inl e \<Rightarrow> Inl e
      | Inr pid \<Rightarrow>
          (case poll_loop env a 0 of
             Inl e \<Rightarrow> Inl e
           | Inr _ \<Rightarrow>
               (case read_connection_file env of
                  Inl e \<Rightarrow> Inl e
                | Inr contents \<Rightarrow> Inr (string_of_nat pid @ ''\<newline>'' @ contents @ ''\<newline>''))))"

section \<open>Decoding the spawn result: \<^verbatim>\<open>json.load\<close>\<close>

text \<open>
  \<^verbatim>\<open>json.load(stdout)\<close> reads the whole stream and decodes it as one JSON document:
  leading whitespace, one value, trailing whitespace, and nothing else (anything left
  over is the decoder's "Extra data" error). The value scanner covers \<^verbatim>\<open>null\<close>,
  \<^verbatim>\<open>true\<close>, \<^verbatim>\<open>false\<close>, integers, strings with the single-character escapes, arrays
  and objects; a fraction, an exponent or a \<^verbatim>\<open>\u\<close> escape is outside the model and is
  reported as a decoding error. The fuel bounds the nesting depth and is the length of
  the text, which no document exhausts.
\<close>

definition is_ws :: "char \<Rightarrow> bool" where
  "is_ws c = (c = CHR '' '' \<or> c = CHR 0x0A \<or> c = CHR 0x0D \<or> c = CHR 0x09)"

definition skip_ws :: "string \<Rightarrow> string" where
  "skip_ws s = dropWhile is_ws s"

definition is_digit :: "char \<Rightarrow> bool" where
  "is_digit c = (c \<in> set ''0123456789'')"

definition digit_val :: "char \<Rightarrow> nat" where
  "digit_val c = of_char c - 48"

definition nat_of_digits :: "string \<Rightarrow> nat" where
  "nat_of_digits ds = foldl (\<lambda>acc c. 10 * acc + digit_val c) 0 ds"

text \<open>\<open>expect c s\<close>: the text after \<open>c\<close> when \<open>s\<close> starts with \<open>c\<close>.\<close>

fun expect :: "char \<Rightarrow> string \<Rightarrow> string option" where
  "expect c [] = None"
| "expect c (x # xs) = (if x = c then Some xs else None)"

fun expect_word :: "string \<Rightarrow> string \<Rightarrow> string option" where
  "expect_word [] s = Some s"
| "expect_word (c # cs) s = (case expect c s of None \<Rightarrow> None | Some r \<Rightarrow> expect_word cs r)"

text \<open>
  The integer part of a number, \<^verbatim>\<open>(0|[1-9]\d*)\<close>: a leading zero stands alone. A
  following fraction or exponent is not modelled.
\<close>

definition scan_nat :: "string \<Rightarrow> (nat \<times> string) option" where
  "scan_nat s =
     (case s of
        [] \<Rightarrow> None
      | c # cs \<Rightarrow>
          if c = CHR ''0'' then Some (0, cs)
          else if is_digit c then Some (nat_of_digits (takeWhile is_digit s), dropWhile is_digit s)
          else None)"

definition no_fraction :: "string \<Rightarrow> bool" where
  "no_fraction r = (case r of [] \<Rightarrow> True | c # cs \<Rightarrow> c \<noteq> CHR ''.'' \<and> c \<noteq> CHR ''e'' \<and> c \<noteq> CHR ''E'')"

definition scan_number :: "string \<Rightarrow> (json \<times> string) option" where
  "scan_number s =
     (case expect CHR ''-'' s of
        Some r \<Rightarrow>
          (case scan_nat r of
             Some (n, rest) \<Rightarrow> if no_fraction rest then Some (JInt (- int n), rest) else None
           | None \<Rightarrow> None)
      | None \<Rightarrow>
          (case scan_nat s of
             Some (n, rest) \<Rightarrow> if no_fraction rest then Some (JInt (int n), rest) else None
           | None \<Rightarrow> None))"

text \<open>The body of a string, after the opening quote, up to the closing one.\<close>

definition unescape :: "char \<Rightarrow> char option" where
  "unescape c =
     (if c = CHR 0x22 \<or> c = CHR 0x5C \<or> c = CHR ''/'' then Some c
      else if c = CHR ''n'' then Some (CHR 0x0A)
      else if c = CHR ''r'' then Some (CHR 0x0D)
      else if c = CHR ''t'' then Some (CHR 0x09)
      else if c = CHR ''b'' then Some (CHR 0x08)
      else if c = CHR ''f'' then Some (CHR 0x0C)
      else None)"

fun scan_string :: "string \<Rightarrow> string \<Rightarrow> (string \<times> string) option" where
  "scan_string acc [] = None"
| "scan_string acc [c] = (if c = CHR 0x22 then Some (acc, []) else None)"
| "scan_string acc (c # d # cs) =
     (if c = CHR 0x22 then Some (acc, d # cs)
      else if c = CHR 0x5C then
        (case unescape d of None \<Rightarrow> None | Some u \<Rightarrow> scan_string (acc @ [u]) cs)
      else if of_char c < (32::nat) then None
      else scan_string (acc @ [c]) (d # cs))"

fun scan_once :: "nat \<Rightarrow> string \<Rightarrow> (json \<times> string) option"
  and scan_array :: "nat \<Rightarrow> json list \<Rightarrow> string \<Rightarrow> (json \<times> string) option"
  and scan_object :: "nat \<Rightarrow> dict \<Rightarrow> string \<Rightarrow> (json \<times> string) option"
where
  "scan_once 0 s = None"
| "scan_once (Suc f) [] = None"
| "scan_once (Suc f) (c # cs) =
     (if c = CHR 0x22 then
        (case scan_string [] cs of None \<Rightarrow> None | Some (str, rest) \<Rightarrow> Some (JStr str, rest))
      else if c = CHR ''{'' then
        (case expect CHR ''}'' (skip_ws cs) of
           Some rest \<Rightarrow> Some (JObj [], rest)
         | None \<Rightarrow> scan_object f [] (skip_ws cs))
      else if c = CHR ''['' then
        (case expect CHR '']'' (skip_ws cs) of
           Some rest \<Rightarrow> Some (JArr [], rest)
         | None \<Rightarrow> scan_array f [] (skip_ws cs))
      else if c = CHR ''n'' then
        (case expect_word ''ull'' cs of None \<Rightarrow> None | Some rest \<Rightarrow> Some (JNull, rest))
      else if c = CHR ''t'' then
        (case expect_word ''rue'' cs of None \<Rightarrow> None | Some rest \<Rightarrow> Some (JBool True, rest))
      else if c = CHR ''f'' then
        (case expect_word ''alse'' cs of None \<Rightarrow> None | Some rest \<Rightarrow> Some (JBool False, rest))
      else scan_number (c # cs))"
| "scan_array 0 acc s = None"
| "scan_array (Suc f) acc s =
     (case scan_once f s of
        None \<Rightarrow> None
      | Some (v, rest) \<Rightarrow>
          (case expect CHR '','' (skip_ws rest) of
             Some nxt \<Rightarrow> scan_array f (acc @ [v]) (skip_ws nxt)
           | None \<Rightarrow>
               (case expect CHR '']'' (skip_ws rest) of
                  Some after \<Rightarrow> Some (JArr (acc @ [v]), after)
                | None \<Rightarrow> None)))"
| "scan_object 0 acc s = None"
| "scan_object (Suc f) acc s =
     (case expect CHR 0x22 s of
        None \<Rightarrow> None
      | Some body \<Rightarrow>
          (case scan_string [] body of
             None \<Rightarrow> None
           | Some (k, rest) \<Rightarrow>
               (case expect CHR '':'' (skip_ws rest) of
                  None \<Rightarrow> None
                | Some r \<Rightarrow>
                    (case scan_once f (skip_ws r) of
                       None \<Rightarrow> None
                     | Some (v, rest2) \<Rightarrow>
                         (case expect CHR '','' (skip_ws rest2) of
                            Some nxt \<Rightarrow> scan_object f (acc @ [(k, v)]) (skip_ws nxt)
                          | None \<Rightarrow>
                              (case expect CHR ''}'' (skip_ws rest2) of
                                 Some after \<Rightarrow> Some (JObj (acc @ [(k, v)]), after)
                               | None \<Rightarrow> None))))))"

definition json_load :: "string \<Rightarrow> error + json" where
  "json_load s =
     (case scan_once (Suc (length s)) (skip_ws s) of
        None \<Rightarrow> Inl JSONDecodeError
      | Some (v, rest) \<Rightarrow> if skip_ws rest = [] then Inr v else Inl JSONDecodeError)"

section \<open>The delegating kernel (src/hydra\_kernel/kernel.py)\<close>

subsection \<open>Messages, external calls and their outcomes\<close>

text \<open>
  A target, as the kernel uses it: \<^verbatim>\<open>binding.kernel\<close>, \<^verbatim>\<open>binding.is_loopback\<close> and
  \<^verbatim>\<open>binding.connection\<close> (user, host and key file, read with \<^verbatim>\<open>.get\<close>). The class
  itself is defined outside the modelled files.
\<close>

record binding =
  binding_kernel :: string
  is_loopback :: bool
  connection :: "(string \<times> string) list"

text \<open>The caller's request: its identity, its metadata and its content.\<close>

record parent =
  parent_msg_id :: string
  parent_metadata :: dict
  parent_content :: dict

text \<open>
  A message of a delegated engine, as a handler reads it: \<^verbatim>\<open>msg["header"]["msg_type"]\<close>,
  \<^verbatim>\<open>msg.get("content")\<close> and \<^verbatim>\<open>msg.get("metadata")\<close>.
\<close>

record msg =
  msg_type :: string
  msg_content :: "json option"
  msg_metadata :: "json option"

text \<open>The caller-side streams a proxy writes to: \<^verbatim>\<open>iopub_socket\<close> and the \<^verbatim>\<open>shell_streams\<close>.\<close>

datatype sink = Iopub_socket | Shell_stream nat

text \<open>
  Everything the code does to its surroundings is appended, in order, to a trace of
  calls: messages sent through the session, and calls of the libraries and of the
  classes defined outside the modelled files.
\<close>

datatype call =
    Session_send sink string "json option" parent "json option"
  | Get_kernel_spec string
  | Install_kernel_spec string
  | Binding_exec string
  | Tunnel_to_kernel dict string "string option"
  | Super_pre_start_kernel string
  | Launch_kernel string
  | New_kernel_manager string
  | Km_client string
  | Start_channels string
  | Shutdown_kernel string
  | Binding_manager_get json
  | Channel_send string msg
  | Channel_flush string
  | Super_execute_request parent
  | Abort_queues

record world =
  calls :: "call list"

datatype event = Iopub msg | Shell msg

text \<open>
  The surroundings: what each external call answers, given the trace up to the call.
  \<open>Inl\<close> is the exception it raises. \<open>arrivals\<close> lists the messages of the delegated
  engine that reach the client's channels during each \<^verbatim>\<open>time.sleep(0.1)\<close> of a wait, in
  their order of delivery; \<open>flushed\<close> lists the broadcast messages still pending when the
  channel is flushed.
\<close>

record env =
  ext_get_kernel_spec :: "call list \<Rightarrow> string \<Rightarrow> error + unit"
  ext_install_kernel_spec :: "call list \<Rightarrow> string \<Rightarrow> error + unit"
  ext_binding_exec :: "call list \<Rightarrow> binding \<Rightarrow> string \<Rightarrow> error + (int \<times> string \<times> string)"
  ext_tunnel_to_kernel ::
    "call list \<Rightarrow> dict \<Rightarrow> string \<Rightarrow> string option \<Rightarrow> error + (int \<times> int \<times> int \<times> int \<times> int)"
  ext_super_pre_start_kernel :: "call list \<Rightarrow> string \<Rightarrow> error + unit"
  ext_launch_kernel :: "call list \<Rightarrow> string \<Rightarrow> error + unit"
  ext_new_kernel_manager :: "call list \<Rightarrow> string \<Rightarrow> error + string"
  ext_km_client :: "call list \<Rightarrow> string \<Rightarrow> error + unit"
  ext_start_channels :: "call list \<Rightarrow> string \<Rightarrow> error + unit"
  ext_shutdown_kernel :: "call list \<Rightarrow> string \<Rightarrow> error + unit"
  ext_binding_manager_get :: "call list \<Rightarrow> json \<Rightarrow> error + binding"
  ext_super_execute_request :: "call list \<Rightarrow> parent \<Rightarrow> error + unit"
  ext_abort_queues :: "call list \<Rightarrow> error + unit"
  cfg_tunnel :: bool
  arrivals :: "call list \<Rightarrow> event list list"
  flushed :: "call list \<Rightarrow> msg list"

subsection \<open>Sequencing with exceptions\<close>

text \<open>
  A statement takes the state and gives the state after it, with the value it returns
  (\<open>Inr\<close>) or the exception it raises (\<open>Inl\<close>). What was done before a raise stays done.
\<close>

definition returns :: "'a \<Rightarrow> 'w \<Rightarrow> (error + 'a) \<times> 'w" where
  "returns x w = (Inr x, w)"

definition raises :: "error \<Rightarrow> 'w \<Rightarrow> (error + 'a) \<times> 'w" where
  "raises e w = (Inl e, w)"

definition lift :: "error + 'a \<Rightarrow> 'w \<Rightarrow> (error + 'a) \<times> 'w" where
  "lift r w = (r, w)"

definition then_do ::
  "('w \<Rightarrow> (error + 'a) \<times> 'w) \<Rightarrow> ('a \<Rightarrow> 'w \<Rightarrow> (error + 'b) \<times> 'w) \<Rightarrow> 'w \<Rightarrow> (error + 'b) \<times> 'w" where
  "then_do m f w = (case m w of (Inl e, w') \<Rightarrow> (Inl e, w') | (Inr x, w') \<Rightarrow> f x w')"

text \<open>\<^verbatim>\<open>try: m  except E: handler\<close>, where \<open>matches\<close> says which exceptions \<open>E\<close> catches.\<close>

definition try_except ::
  "('w \<Rightarrow> (error + 'a) \<times> 'w) \<Rightarrow> (error \<Rightarrow> bool) \<Rightarrow> (error \<Rightarrow> 'w \<Rightarrow> (error + 'a) \<times> 'w)
     \<Rightarrow> 'w \<Rightarrow> (error + 'a) \<times> 'w" where
  "try_except m matches handler w =
     (case m w of
        (Inl e, w') \<Rightarrow> if matches e then handler e w' else (Inl e, w')
      | (Inr x, w') \<Rightarrow> (Inr x, w'))"

text \<open>An external call: recorded in the trace, answered by the surroundings.\<close>

definition external ::
  "call \<Rightarrow> (call list \<Rightarrow> error + 'a) \<Rightarrow> 'm world_scheme \<Rightarrow> (error + 'a) \<times> 'm world_scheme" where
  "external c answer w = (answer (calls w), w\<lparr>calls := calls w @ [c]\<rparr>)"

fun is_NoSuchKernel :: "error \<Rightarrow> bool" where
  "is_NoSuchKernel NoSuchKernel = True"
| "is_NoSuchKernel _ = False"

fun is_RuntimeError :: "error \<Rightarrow> bool" where
  "is_RuntimeError (RuntimeError m) = True"
| "is_RuntimeError _ = False"

subsection \<open>HydraKernelManager\<close>

text \<open>
  The manager of one delegated engine: \<^verbatim>\<open>id\<close>, \<^verbatim>\<open>kernel_name\<close>, the \<^verbatim>\<open>tunnel\<close> trait,
  \<^verbatim>\<open>_binding\<close> (\<^verbatim>\<open>None\<close> until \<^verbatim>\<open>init_binding\<close>) and the connection information that
  \<^verbatim>\<open>load_connection_info\<close> records and \<^verbatim>\<open>get_connection_info\<close> returns.
\<close>

record kernel_manager =
  km_id :: string
  kernel_name :: string
  tunnel :: bool
  km_binding :: "binding option"
  conn_info :: dict

text \<open>\<^verbatim>\<open>shlex.quote\<close>.\<close>

definition is_safe_char :: "char \<Rightarrow> bool" where
  "is_safe_char c =
     (c \<in> set ''abcdefghijklmnopqrstuvwxyzABCDEFGHIJKLMNOPQRSTUVWXYZ0123456789_@%+=:,./-'')"

definition shlex_quote :: "string \<Rightarrow> string" where
  "shlex_quote s =
     (if s = [] then [CHR 0x27, CHR 0x27]
      else if list_all is_safe_char s then s
      else [CHR 0x27]
           @ concat (map (\<lambda>c. if c = CHR 0x27 then [CHR 0x27, CHR 0x22, CHR 0x27, CHR 0x22, CHR 0x27]
                                else [c]) s)
           @ [CHR 0x27])"

text \<open>What an f-string writes for the result of \<^verbatim>\<open>conn.get(k)\<close>.\<close>

fun format_opt :: "string option \<Rightarrow> string" where
  "format_opt None = ''None''"
| "format_opt (Some s) = s"

definition needs_tunnel :: "kernel_manager \<Rightarrow> error + bool" where
  "needs_tunnel km =
     (if \<not> tunnel km then Inr False
      else case km_binding km of None \<Rightarrow> Inl AttributeError | Some b \<Rightarrow> Inr (\<not> is_loopback b))"

definition init_binding :: "binding \<Rightarrow> kernel_manager \<Rightarrow> kernel_manager" where
  "init_binding b km = km\<lparr>km_binding := Some b\<rparr>"

text \<open>
  \<^verbatim>\<open>load_connection_info\<close> of the library records the fields of the descriptor on the
  manager; it reads them with \<^verbatim>\<open>info.get\<close>, which only a dictionary has.
\<close>

fun load_connection_info :: "json \<Rightarrow> kernel_manager \<Rightarrow> error + kernel_manager" where
  "load_connection_info (JObj d) km = Inr (km\<lparr>conn_info := d\<rparr>)"
| "load_connection_info _ km = Inl AttributeError"

definition set_ports :: "int \<times> int \<times> int \<times> int \<times> int \<Rightarrow> kernel_manager \<Rightarrow> kernel_manager" where
  "set_ports ports km =
     (case ports of (shell, iopub, stdin, hb, control) \<Rightarrow>
        km\<lparr>conn_info := conn_info km
             @ [(''shell_port'', JInt shell), (''iopub_port'', JInt iopub), (''stdin_port'', JInt stdin),
                (''hb_port'', JInt hb), (''control_port'', JInt control)]\<rparr>)"

definition spawn_command :: "kernel_manager \<Rightarrow> string" where
  "spawn_command km = ''hydra spawn '' @ shlex_quote (km_id km) @ '' '' @ shlex_quote (kernel_name km)"

text \<open>
  Lines 78 to 81 of \<^verbatim>\<open>HydraKernelManager.pre_start_kernel\<close>: the lookup of the
  engine-type spec, and its installation when the lookup raises \<^verbatim>\<open>NoSuchKernel\<close>.
\<close>

definition lookup_kernel_spec ::
  "env \<Rightarrow> kernel_manager \<Rightarrow> 'm world_scheme \<Rightarrow> (error + unit) \<times> 'm world_scheme" where
  "lookup_kernel_spec env km =
     try_except
       (external (Get_kernel_spec (kernel_name km))
          (\<lambda>tr. ext_get_kernel_spec env tr (kernel_name km)))
       is_NoSuchKernel
       (\<lambda>e. external (Install_kernel_spec (kernel_name km))
          (\<lambda>tr. ext_install_kernel_spec env tr (kernel_name km)))"

text \<open>
  Lines 83 to 101: the remote spawn, the decoding of its result, the connection
  information and the tunnel.
\<close>

definition spawn_remote ::
  "env \<Rightarrow> kernel_manager \<Rightarrow> 'm world_scheme \<Rightarrow> (error + kernel_manager) \<times> 'm world_scheme" where
  "spawn_remote env km =
     then_do
       (case km_binding km of
          None \<Rightarrow> raises AttributeError
        | Some b \<Rightarrow>
            external (Binding_exec (spawn_command km))
              (\<lambda>tr. ext_binding_exec env tr b (spawn_command km)))
       (\<lambda>(code, stdout, stderr).
     then_do (lift (json_load stdout))
       (\<lambda>res.
     then_do (lift (subscript res ''connection''))
       (\<lambda>info.
     then_do (lift (load_connection_info info km))
       (\<lambda>km1.
     then_do (lift (needs_tunnel km1))
       (\<lambda>needed.
       if needed then
          (case km_binding km1 of
             None \<Rightarrow> raises AttributeError
           | Some b \<Rightarrow>
               (let conn = connection b;
                    sshkey = map_of (rev conn) ''ssh_private_key_file'';
                    sshserver = format_opt (map_of (rev conn) ''user'') @ ''@''
                                @ format_opt (map_of (rev conn) ''host'')
                in then_do
                     (external (Tunnel_to_kernel (conn_info km1) sshserver sshkey)
                        (\<lambda>tr. ext_tunnel_to_kernel env tr (conn_info km1) sshserver sshkey))
                     (\<lambda>ports. returns (set_ports ports km1))))
        else returns km1)))))"

text \<open>
  Line 103, \<^verbatim>\<open>super().pre_start_kernel(**kw)\<close>: the library's method builds the kernel
  command from \<^verbatim>\<open>self.kernel_spec\<close>. Nothing has set that property yet (line 79 throws
  away what it found), so for a kernel name that is not empty the property looks the
  spec up again, through the same \<^verbatim>\<open>kernel_spec_manager\<close>; an exception of that lookup
  propagates. What the library does with the spec afterwards is one external call.
\<close>

definition super_pre_start_kernel ::
  "env \<Rightarrow> kernel_manager \<Rightarrow> 'm world_scheme \<Rightarrow> (error + unit) \<times> 'm world_scheme" where
  "super_pre_start_kernel env km =
     then_do
       (if kernel_name km \<noteq> [] then
          external (Get_kernel_spec (kernel_name km))
            (\<lambda>tr. ext_get_kernel_spec env tr (kernel_name km))
        else returns ())
       (\<lambda>_. external (Super_pre_start_kernel (km_id km))
               (\<lambda>tr. ext_super_pre_start_kernel env tr (km_id km)))"

text \<open>\<^verbatim>\<open>HydraKernelManager.pre_start_kernel\<close>, lines 76 to 103.\<close>

definition pre_start_kernel ::
  "env \<Rightarrow> kernel_manager \<Rightarrow> 'm world_scheme \<Rightarrow> (error + kernel_manager) \<times> 'm world_scheme" where
  "pre_start_kernel env km =
     then_do (lookup_kernel_spec env km)
       (\<lambda>_.
     then_do (spawn_remote env km)
       (\<lambda>km2.
     then_do (super_pre_start_kernel env km2)
       (\<lambda>_. returns km2)))"

subsection \<open>ProxyComms\<close>

text \<open>
  The attributes \<^verbatim>\<open>parent\<close>, \<^verbatim>\<open>iopub\<close>, \<^verbatim>\<open>shells\<close>, \<^verbatim>\<open>_reply_content\<close> and
  \<^verbatim>\<open>_kernel_idle\<close>. The \<^verbatim>\<open>session\<close> is the kernel's: what it sends goes to the trace.
\<close>

record proxy_comms =
  proxy_parent :: parent
  iopub :: sink
  shells :: "sink list"
  priv_reply_content :: "json option"
  priv_kernel_idle :: bool

definition ProxyComms :: "parent \<Rightarrow> sink \<Rightarrow> sink list \<Rightarrow> proxy_comms" where
  "ProxyComms p io shs =
     \<lparr> proxy_parent = p, iopub = io, shells = shs,
       priv_reply_content = None, priv_kernel_idle = False \<rparr>"

definition reply_content :: "proxy_comms \<Rightarrow> json option" where
  "reply_content p = (if \<not> priv_kernel_idle p then None else priv_reply_content p)"

definition session_send ::
  "sink \<Rightarrow> string \<Rightarrow> json option \<Rightarrow> parent \<Rightarrow> json option \<Rightarrow> 'm world_scheme \<Rightarrow> 'm world_scheme" where
  "session_send stream mt c p md w = w\<lparr>calls := calls w @ [Session_send stream mt c p md]\<rparr>"

text \<open>\<^verbatim>\<open>content["execution_state"]\<close>, where \<^verbatim>\<open>content\<close> may be \<^verbatim>\<open>None\<close>.\<close>

definition execution_state :: "json option \<Rightarrow> error + json" where
  "execution_state c = (case c of None \<Rightarrow> Inl TypeError | Some v \<Rightarrow> subscript v ''execution_state'')"

definition on_iopub_message ::
  "msg \<Rightarrow> proxy_comms \<Rightarrow> 'm world_scheme \<Rightarrow> (error + proxy_comms) \<times> 'm world_scheme" where
  "on_iopub_message m p w =
     (let w1 = session_send (iopub p) (msg_type m) (msg_content m) (proxy_parent p) (msg_metadata m) w
      in if msg_type m = ''status'' then
           (case execution_state (msg_content m) of
              Inl e \<Rightarrow> (Inl e, w1)
            | Inr st \<Rightarrow>
                if st = JStr ''idle'' then (Inr (p\<lparr>priv_kernel_idle := True\<rparr>), w1)
                else (Inr p, w1))
         else (Inr p, w1))"

definition on_shell_message ::
  "msg \<Rightarrow> proxy_comms \<Rightarrow> 'm world_scheme \<Rightarrow> (error + proxy_comms) \<times> 'm world_scheme" where
  "on_shell_message m p w =
     (if msg_type m = ''execute_request'' then (Inr p, w)
      else
        (let w1 = foldl (\<lambda>acc s. session_send s (msg_type m) (msg_content m) (proxy_parent p)
                                    (msg_metadata m) acc) w (shells p)
         in if msg_type m = ''execute_reply'' then (Inr (p\<lparr>priv_reply_content := msg_content m\<rparr>), w1)
            else (Inr p, w1)))"

text \<open>
  A run of one proxy: the messages of the two channels reach its two handlers in some
  order. A handler that raises does so in the channel's reader, after what it already
  did; the proxy keeps its state and the later messages are still handled.
\<close>

definition handle_event ::
  "event \<Rightarrow> proxy_comms \<Rightarrow> 'm world_scheme \<Rightarrow> (error + proxy_comms) \<times> 'm world_scheme" where
  "handle_event ev p w =
     (case ev of Iopub m \<Rightarrow> on_iopub_message m p w | Shell m \<Rightarrow> on_shell_message m p w)"

fun run_proxy :: "event list \<Rightarrow> proxy_comms \<Rightarrow> 'm world_scheme \<Rightarrow> proxy_comms \<times> 'm world_scheme" where
  "run_proxy [] p w = (p, w)"
| "run_proxy (ev # evs) p w =
     (case handle_event ev p w of
        (Inl e, w') \<Rightarrow> run_proxy evs p w'
      | (Inr p', w') \<Rightarrow> run_proxy evs p' w')"

subsection \<open>HydraChannel and HydraKernelClient\<close>

text \<open>
  A piped handler is a bound method of a proxy; the proxy is named by its place in the
  kernel's list of proxies.
\<close>

datatype handler = On_iopub_message nat | On_shell_message nat

record channel =
  pipes :: "handler list"

definition HydraChannel :: channel where
  "HydraChannel = \<lparr> pipes = [] \<rparr>"

definition pipe :: "handler \<Rightarrow> channel \<Rightarrow> channel" where
  "pipe h ch = ch\<lparr>pipes := pipes ch @ [h]\<rparr>"

definition unpipe :: "channel \<Rightarrow> channel" where
  "unpipe ch = ch\<lparr>pipes := []\<rparr>"

record kernel_client =
  shell_channel :: channel
  iopub_channel :: channel

subsection \<open>HydraKernel\<close>

text \<open>
  The kernel: the class-level \<^verbatim>\<open>_kernels\<close>, the kernels its multi-kernel manager
  holds, the proxies it has created, and its \<^verbatim>\<open>shell_streams\<close>.
\<close>

record hydra_kernel = world +
  kernels :: "json \<rightharpoonup> (kernel_manager \<times> kernel_client)"
  managed :: "string \<rightharpoonup> kernel_manager"
  proxies :: "proxy_comms list"
  shell_streams :: "sink list"

text \<open>Calling a piped handler: the proxy it is bound to handles the message.\<close>

definition call_handler :: "handler \<Rightarrow> msg \<Rightarrow> hydra_kernel \<Rightarrow> (error + unit) \<times> hydra_kernel" where
  "call_handler h m s =
     (case h of
        On_iopub_message i \<Rightarrow>
          (if i < length (proxies s) then
             (case on_iopub_message m (proxies s ! i) s of
                (Inl e, s') \<Rightarrow> (Inl e, s')
              | (Inr p', s') \<Rightarrow> (Inr (), s'\<lparr>proxies := (proxies s')[i := p']\<rparr>))
           else (Inr (), s))
      | On_shell_message i \<Rightarrow>
          (if i < length (proxies s) then
             (case on_shell_message m (proxies s ! i) s of
                (Inl e, s') \<Rightarrow> (Inl e, s')
              | (Inr p', s') \<Rightarrow> (Inr (), s'\<lparr>proxies := (proxies s')[i := p']\<rparr>))
           else (Inr (), s)))"

text \<open>\<^verbatim>\<open>HydraChannel.call_handlers\<close>: every piped handler in turn, up to the first raise.\<close>

fun call_each :: "handler list \<Rightarrow> msg \<Rightarrow> hydra_kernel \<Rightarrow> (error + unit) \<times> hydra_kernel" where
  "call_each [] m s = (Inr (), s)"
| "call_each (h # hs) m s =
     (case call_handler h m s of
        (Inl e, s') \<Rightarrow> (Inl e, s')
      | (Inr u, s') \<Rightarrow> call_each hs m s')"

definition call_handlers :: "channel \<Rightarrow> msg \<Rightarrow> hydra_kernel \<Rightarrow> (error + unit) \<times> hydra_kernel" where
  "call_handlers ch m s = call_each (pipes ch) m s"

text \<open>
  The delivery of an arriving message by the client's reader: the channel's handlers
  are called; an exception of theirs ends in the reader, not in the waiting request.
\<close>

definition deliver :: "kernel_client \<Rightarrow> event \<Rightarrow> hydra_kernel \<Rightarrow> hydra_kernel" where
  "deliver kc ev s =
     (case ev of
        Iopub m \<Rightarrow> snd (call_handlers (iopub_channel kc) m s)
      | Shell m \<Rightarrow> snd (call_handlers (shell_channel kc) m s))"

definition deliver_all :: "kernel_client \<Rightarrow> event list \<Rightarrow> hydra_kernel \<Rightarrow> hydra_kernel" where
  "deliver_all kc evs s = foldl (\<lambda>acc ev. deliver kc ev acc) s evs"

text \<open>
  \<^verbatim>\<open>HydraMultiKernelManager.pre_start_kernel\<close>: the library makes the manager and its
  id; the binding and the id are then set on it.
\<close>

definition multi_pre_start_kernel ::
  "env \<Rightarrow> string \<Rightarrow> binding \<Rightarrow> 'm world_scheme \<Rightarrow> (error + kernel_manager \<times> string \<times> string) \<times> 'm world_scheme" where
  "multi_pre_start_kernel env name b =
     then_do (external (New_kernel_manager name) (\<lambda>tr. ext_new_kernel_manager env tr name))
       (\<lambda>kernel_id.
          returns
            (init_binding b
               \<lparr> km_id = [], kernel_name = name, tunnel = cfg_tunnel env,
                 km_binding = None, conn_info = [] \<rparr> \<lparr>km_id := kernel_id\<rparr>,
             name, kernel_id))"

text \<open>
  \<^verbatim>\<open>MultiKernelManager.start_kernel\<close> of the library, which calls the two hooks above:
  it prepares the manager, starts it (\<^verbatim>\<open>pre_start_kernel\<close>, then the launch), registers
  it and returns its id.
\<close>

definition start_kernel :: "env \<Rightarrow> string \<Rightarrow> binding \<Rightarrow> hydra_kernel \<Rightarrow> (error + string) \<times> hydra_kernel" where
  "start_kernel env name b =
     then_do (multi_pre_start_kernel env name b)
       (\<lambda>(km, name', kernel_id).
     then_do (pre_start_kernel env km)
       (\<lambda>km'.
     then_do (external (Launch_kernel kernel_id) (\<lambda>tr. ext_launch_kernel env tr kernel_id))
       (\<lambda>_ s. (Inr kernel_id, s\<lparr>managed := (managed s)(kernel_id \<mapsto> km')\<rparr>))))"

definition get_kernel :: "string \<Rightarrow> hydra_kernel \<Rightarrow> (error + kernel_manager) \<times> hydra_kernel" where
  "get_kernel kernel_id s =
     (case managed s kernel_id of None \<Rightarrow> (Inl (KeyError kernel_id), s) | Some km \<Rightarrow> (Inr km, s))"

text \<open>\<^verbatim>\<open>spawn_kernel\<close>, lines 178 to 190.\<close>

definition spawn_kernel ::
  "env \<Rightarrow> binding \<Rightarrow> hydra_kernel \<Rightarrow> (error + kernel_manager \<times> kernel_client) \<times> hydra_kernel" where
  "spawn_kernel env b =
     then_do (start_kernel env (binding_kernel b) b)
       (\<lambda>kernel_id.
     then_do (get_kernel kernel_id)
       (\<lambda>km.
     then_do
       (try_except
          (then_do (external (Km_client (km_id km)) (\<lambda>tr. ext_km_client env tr (km_id km)))
             (\<lambda>_.
           then_do (external (Start_channels (km_id km)) (\<lambda>tr. ext_start_channels env tr (km_id km)))
             (\<lambda>_. returns \<lparr> shell_channel = HydraChannel, iopub_channel = HydraChannel \<rparr>)))
          is_RuntimeError
          (\<lambda>e. then_do
                  (external (Shutdown_kernel (km_id km)) (\<lambda>tr. ext_shutdown_kernel env tr (km_id km)))
                  (\<lambda>_. raises e)))
       (\<lambda>kc. returns (km, kc))))"

text \<open>
  Lines 269 to 278 of \<^verbatim>\<open>execute_request\<close>, the spec's \<open>ensure\<close>: the handle cached
  under the binding name, spawned and cached first when there is none.
\<close>

definition ensure ::
  "env \<Rightarrow> json \<Rightarrow> hydra_kernel \<Rightarrow> (error + kernel_manager \<times> kernel_client) \<times> hydra_kernel" where
  "ensure env binding_name =
     then_do
       (\<lambda>s. if kernels s binding_name = None then
               then_do
                 (external (Binding_manager_get binding_name)
                    (\<lambda>tr. ext_binding_manager_get env tr binding_name))
                 (\<lambda>b.
               then_do (spawn_kernel env b)
                 (\<lambda>h s'. (Inr (), s'\<lparr>kernels := (kernels s')(binding_name \<mapsto> h)\<rparr>))) s
             else (Inr (), s))
       (\<lambda>_ s. case kernels s binding_name of
                 None \<Rightarrow> (Inl (KeyError ''binding_name''), s)
               | Some h \<Rightarrow> (Inr h, s))"

text \<open>
  The wait of lines 292 and 293, for the proxy at place \<open>i\<close>. Each sleep lets one batch
  of messages arrive. When the engine has nothing more to send and the proxy has no
  truthy reply yet, the loop never ends: \<open>None\<close>.
\<close>

fun wait_reply :: "nat \<Rightarrow> kernel_client \<Rightarrow> event list list \<Rightarrow> hydra_kernel \<Rightarrow> hydra_kernel option" where
  "wait_reply i kc [] s = (if truthy_opt (reply_content (proxies s ! i)) then Some s else None)"
| "wait_reply i kc (batch # batches) s =
     (if truthy_opt (reply_content (proxies s ! i)) then Some s
      else wait_reply i kc batches (deliver_all kc batch s))"

text \<open>
  Line 299: \<^verbatim>\<open>not silent and proxy.reply_content["status"] == "error" and stop_on_error\<close>,
  evaluated left to right and only as far as needed.
\<close>

definition must_abort :: "json \<Rightarrow> json option \<Rightarrow> json \<Rightarrow> error + bool" where
  "must_abort silent reply stop_on_error =
     (if truthy silent then Inr False
      else case (case reply of None \<Rightarrow> Inl TypeError | Some r \<Rightarrow> subscript r ''status'') of
             Inl e \<Rightarrow> Inl e
           | Inr st \<Rightarrow> if st = JStr ''error'' then Inr (truthy stop_on_error) else Inr False)"

text \<open>
  \<^verbatim>\<open>HydraKernel.execute_request\<close>, lines 259 to 300. \<open>None\<close>: the wait never ends.
\<close>

definition execute_request ::
  "env \<Rightarrow> parent \<Rightarrow> hydra_kernel \<Rightarrow> ((error + unit) \<times> hydra_kernel) option" where
  "execute_request env p s =
     (case dict_get (parent_metadata p) ''chameleon.binding_name'' of
        None \<Rightarrow> Some (external (Super_execute_request p) (\<lambda>tr. ext_super_execute_request env tr p) s)
      | Some binding_name \<Rightarrow>
          if \<not> truthy binding_name then
            Some (external (Super_execute_request p) (\<lambda>tr. ext_super_execute_request env tr p) s)
          else
            (let cont = parent_content p in
             case dict_item cont ''silent'' of
               Inl e \<Rightarrow> Some (Inl e, s)
             | Inr silent \<Rightarrow>
                 (let stop_on_error =
                        (case dict_get cont ''stop_on_error'' of None \<Rightarrow> JBool True | Some v \<Rightarrow> v)
                  in case ensure env binding_name s of
                       (Inl e, s1) \<Rightarrow> Some (Inl e, s1)
                     | (Inr (km, kc), s1) \<Rightarrow>
                         (let m = \<lparr> msg_type = ''execute_request'', msg_content = Some (JObj cont),
                                    msg_metadata = Some (JObj []) \<rparr>;
                              i = length (proxies s1);
                              proxy = ProxyComms p Iopub_socket (shell_streams s1);
                              s2 = s1\<lparr>proxies := proxies s1 @ [proxy]\<rparr>;
                              s3 = s2\<lparr>calls := calls s2 @ [Channel_send (km_id km) m]\<rparr>;
                              kc1 = kc\<lparr>iopub_channel := pipe (On_iopub_message i) (iopub_channel kc)\<rparr>;
                              kc2 = kc1\<lparr>shell_channel := pipe (On_shell_message i) (shell_channel kc1)\<rparr>;
                              s4 = s3\<lparr>kernels := (kernels s3)(binding_name \<mapsto> (km, kc2))\<rparr>
                          in case wait_reply i kc2 (arrivals env (calls s4)) s4 of
                               None \<Rightarrow> None
                             | Some s5 \<Rightarrow>
                                 (let s6 = s5\<lparr>calls := calls s5 @ [Channel_flush (km_id km)]\<rparr>;
                                      s7 = deliver_all kc2 (map Iopub (flushed env (calls s5))) s6;
                                      kc3 = kc2\<lparr>iopub_channel := unpipe (iopub_channel kc2)\<rparr>;
                                      kc4 = kc3\<lparr>shell_channel := unpipe (shell_channel kc3)\<rparr>;
                                      s8 = s7\<lparr>kernels := (kernels s7)(binding_name \<mapsto> (km, kc4))\<rparr>
                                  in case must_abort silent (reply_content (proxies s8 ! i)) stop_on_error of
                                       Inl e \<Rightarrow> Some (Inl e, s8)
                                     | Inr True \<Rightarrow>
                                         Some (external Abort_queues (\<lambda>tr. ext_abort_queues env tr) s8)
                                     | Inr False \<Rightarrow> Some (Inr (), s8))))))"

section \<open>Notions used in the statements\<close>

text \<open>Which channel a message came in on.\<close>

fun is_iopub :: "event \<Rightarrow> bool" where
  "is_iopub (Iopub m) = True"
| "is_iopub (Shell m) = False"

text \<open>A status event whose state is "idle".\<close>

definition idle_status :: "msg \<Rightarrow> bool" where
  "idle_status m = (msg_type m = ''status'' \<and> execution_state (msg_content m) = Inr (JStr ''idle''))"

text \<open>Whether an idle status has been seen, given whether one had been seen before.\<close>

fun idle_observed :: "bool \<Rightarrow> event list \<Rightarrow> bool" where
  "idle_observed b [] = b"
| "idle_observed b (Iopub m # evs) = idle_observed (b \<or> idle_status m) evs"
| "idle_observed b (Shell m # evs) = idle_observed b evs"

text \<open>The payload of the latest execution reply, given the one recorded before.\<close>

fun recorded_reply :: "json option \<Rightarrow> event list \<Rightarrow> json option" where
  "recorded_reply r [] = r"
| "recorded_reply r (Iopub m # evs) = recorded_reply r evs"
| "recorded_reply r (Shell m # evs) =
     recorded_reply (if msg_type m = ''execute_reply'' then msg_content m else r) evs"


text \<open>The types of the messages that a trace sends to one of the given sinks.\<close>

fun forwarded :: "sink list \<Rightarrow> call list \<Rightarrow> string list" where
  "forwarded sinks [] = []"
| "forwarded sinks (Session_send s mt c p md # tr) =
     (if s \<in> set sinks then mt # forwarded sinks tr else forwarded sinks tr)"
| "forwarded sinks (c # tr) = forwarded sinks tr"

text \<open>The types of all the messages that a trace sends.\<close>

fun sent_types :: "call list \<Rightarrow> string list" where
  "sent_types [] = []"
| "sent_types (Session_send s mt c p md # tr) = mt # sent_types tr"
| "sent_types (c # tr) = sent_types tr"

text \<open>\<open>ensure\<close> called \<open>n\<close> times in a row for one name; the handles returned, in order.\<close>

fun ensure_times ::
  "env \<Rightarrow> json \<Rightarrow> nat \<Rightarrow> hydra_kernel \<Rightarrow> (error + (kernel_manager \<times> kernel_client) list) \<times> hydra_kernel" where
  "ensure_times env binding_name 0 s = (Inr [], s)"
| "ensure_times env binding_name (Suc n) s =
     (case ensure env binding_name s of
        (Inl e, s') \<Rightarrow> (Inl e, s')
      | (Inr h, s') \<Rightarrow>
          (case ensure_times env binding_name n s' of
             (Inl e, s'') \<Rightarrow> (Inl e, s'')
           | (Inr hs, s'') \<Rightarrow> (Inr (h # hs), s'')))"

text \<open>The calls that look an engine-type spec up or install one.\<close>

fun is_spec_call :: "call \<Rightarrow> bool" where
  "is_spec_call (Get_kernel_spec n) = True"
| "is_spec_call (Install_kernel_spec n) = True"
| "is_spec_call _ = False"

text \<open>The spawns of a delegated engine in a trace: the remote runs of the spawn command.\<close>

fun is_spawn :: "call \<Rightarrow> bool" where
  "is_spawn (Binding_exec c) = True"
| "is_spawn _ = False"

definition spawn_count :: "call list \<Rightarrow> nat" where
  "spawn_count tr = length (filter is_spawn tr)"

text \<open>How often a trace aborts the caller's queued requests.\<close>

definition abort_count :: "call list \<Rightarrow> nat" where
  "abort_count tr = length (filter (\<lambda>c. c = Abort_queues) tr)"


section \<open>Concrete inputs\<close>

text \<open>The agent started with only the required options, in a runtime directory.\<close>

definition default_cli :: cli where
  "default_cli =
     \<lparr> cli_id = ''k1'', cli_kernel = ''python3'', cli_timeout = None, cli_launcher = None,
       cli_log_to_file = None \<rparr>"

text \<open>
  An engine process that exits with status 3 at once and never writes its descriptor.
\<close>

definition exited_agent_env :: agent_env where
  "exited_agent_env =
     \<lparr> jupyter_runtime_dir = ''/run/jupyter'', popen = (\<lambda>c. Inr 4242),
       path_exists = (\<lambda>n. False), kernel_poll = (\<lambda>n. Some 3),
       read_connection_file = Inr [] \<rparr>"

text \<open>An engine process that stays alive and never writes its descriptor.\<close>

definition alive_agent_env :: agent_env where
  "alive_agent_env =
     \<lparr> jupyter_runtime_dir = ''/run/jupyter'', popen = (\<lambda>c. Inr 4242),
       path_exists = (\<lambda>n. False), kernel_poll = (\<lambda>n. None),
       read_connection_file = Inr [] \<rparr>"

text \<open>
  A delegated request tagged with the target \<open>gpu\<close>, messages of its engine, and the
  proxy made for it.
\<close>

definition parent0 :: parent where
  "parent0 = \<lparr> parent_msg_id = ''req-1'',
      parent_metadata = [(''chameleon.binding_name'', JStr ''gpu'')],
      parent_content = [(''code'', JStr ''1/0''), (''silent'', JBool False), (''stop_on_error'', JBool True)] \<rparr>"

definition idle_msg :: msg where
  "idle_msg = \<lparr> msg_type = ''status'', msg_content = Some (JObj [(''execution_state'', JStr ''idle'')]),
      msg_metadata = Some (JObj []) \<rparr>"

definition ok_reply_msg :: msg where
  "ok_reply_msg = \<lparr> msg_type = ''execute_reply'', msg_content = Some (JObj [(''status'', JStr ''ok'')]),
      msg_metadata = Some (JObj []) \<rparr>"

definition echo_msg :: msg where
  "echo_msg = \<lparr> msg_type = ''execute_request'', msg_content = Some (JObj [(''code'', JStr ''1/0'')]),
      msg_metadata = Some (JObj []) \<rparr>"

definition proxy0 :: proxy_comms where
  "proxy0 = ProxyComms parent0 Iopub_socket [Shell_stream 0, Shell_stream 1]"

text \<open>
  A loopback target and the manager made for it; surroundings in which every external
  call succeeds, no message arrives, and the remote spawn answers with a single
  structured document.
\<close>

definition binding0 :: binding where
  "binding0 = \<lparr> binding_kernel = ''python3'', is_loopback = True, connection = [] \<rparr>"

definition km0 :: kernel_manager where
  "km0 = \<lparr> km_id = ''k1'', kernel_name = ''python3'', tunnel = True,
           km_binding = Some binding0, conn_info = [] \<rparr>"

definition spawn_env :: env where
  "spawn_env =
     \<lparr> ext_get_kernel_spec = (\<lambda>tr n. Inr ()),
       ext_install_kernel_spec = (\<lambda>tr n. Inr ()),
       ext_binding_exec = (\<lambda>tr b c.
         Inr (0, ''{\"pid\": 4242, \"connection\": {\"shell_port\": 5001, \"iopub_port\": 5002}}'', [])),
       ext_tunnel_to_kernel = (\<lambda>tr d srv k. Inr (1, 2, 3, 4, 5)),
       ext_super_pre_start_kernel = (\<lambda>tr k. Inr ()),
       ext_launch_kernel = (\<lambda>tr k. Inr ()),
       ext_new_kernel_manager = (\<lambda>tr n. Inr ''k1''),
       ext_km_client = (\<lambda>tr k. Inr ()),
       ext_start_channels = (\<lambda>tr k. Inr ()),
       ext_shutdown_kernel = (\<lambda>tr k. Inr ()),
       ext_binding_manager_get = (\<lambda>tr n. Inr binding0),
       ext_super_execute_request = (\<lambda>tr p. Inr ()),
       ext_abort_queues = (\<lambda>tr. Inr ()),
       cfg_tunnel = True,
       arrivals = (\<lambda>tr. []),
       flushed = (\<lambda>tr. []) \<rparr>"




text \<open>
  A run of the bootstrap agent that succeeds: the descriptor appears at the third look,
  and the agent prints the process id and the descriptor. The remote spawn answers with
  what the agent printed.
\<close>

definition ok_agent_env :: agent_env where
  "ok_agent_env =
     \<lparr> jupyter_runtime_dir = ''/run/jupyter'', popen = (\<lambda>c. Inr 4242),
       path_exists = (\<lambda>n. 2 \<le> n), kernel_poll = (\<lambda>n. None),
       read_connection_file = Inr ''{\"shell_port\": 5001, \"iopub_port\": 5002}'' \<rparr>"

definition agent_spawn_env :: env where
  "agent_spawn_env =
     spawn_env\<lparr> ext_binding_exec := (\<lambda>tr b c.
       case hydra_agent ok_agent_env default_cli of
         Inr out \<Rightarrow> Inr (0, out, [])
       | Inl e \<Rightarrow> Inr (1, [], [])) \<rparr>"

text \<open>The same as \<open>spawn_env\<close>, with a client whose channels fail to start.\<close>

definition os_error_env :: env where
  "os_error_env = spawn_env\<lparr> ext_start_channels := (\<lambda>tr k. Inl (OSError ''Address already in use'')) \<rparr>"

definition runtime_error_env :: env where
  "runtime_error_env = spawn_env\<lparr> ext_start_channels := (\<lambda>tr k. Inl (RuntimeError ''Channels already stopped'')) \<rparr>"

text \<open>The same, with a client that cannot be made.\<close>

definition client_error_env :: env where
  "client_error_env = spawn_env\<lparr> ext_km_client := (\<lambda>tr k. Inl (OSError ''Too many open files'')) \<rparr>"

text \<open>A kernel that has delegated nothing yet.\<close>

definition hydra0 :: hydra_kernel where
  "hydra0 = \<lparr> calls = [], kernels = Map.empty, managed = Map.empty, proxies = [],
              shell_streams = [Shell_stream 0, Shell_stream 1] \<rparr>"

text \<open>The handle that \<open>spawn_env\<close> yields for a first delegated request.\<close>

definition handle0 :: "kernel_manager \<times> kernel_client" where
  "handle0 =
     (km0\<lparr>conn_info := [(''shell_port'', JInt 5001), (''iopub_port'', JInt 5002)]\<rparr>,
      \<lparr> shell_channel = HydraChannel, iopub_channel = HydraChannel \<rparr>)"

text \<open>
  An execution reply with status "error"; surroundings in which the delegated engine
  echoes the request, reports the error and then goes idle; the same request with
  stop-on-error switched off; and a kernel whose cached handle for \<open>gpu\<close> still has a
  handler piped by an earlier proxy.
\<close>

definition error_reply_msg :: msg where
  "error_reply_msg =
     \<lparr> msg_type = ''execute_reply'',
       msg_content = Some (JObj [(''status'', JStr ''error''), (''ename'', JStr ''ZeroDivisionError'')]),
       msg_metadata = Some (JObj []) \<rparr>"

definition error_env :: env where
  "error_env =
     spawn_env\<lparr> arrivals := (\<lambda>tr. [[Shell echo_msg], [Shell error_reply_msg], [Iopub idle_msg]]) \<rparr>"

definition parent_go_on :: parent where
  "parent_go_on =
     parent0\<lparr> parent_content :=
       [(''code'', JStr ''1/0''), (''silent'', JBool False), (''stop_on_error'', JBool False)] \<rparr>"

definition stale_kernel :: hydra_kernel where
  "stale_kernel =
     hydra0\<lparr> kernels := [JStr ''gpu'' \<mapsto>
                 (fst handle0,
                  \<lparr> shell_channel = HydraChannel,
                    iopub_channel = \<lparr> pipes = [On_iopub_message 0] \<rparr> \<rparr>)],
              proxies := [proxy0] \<rparr>"







section \<open>Properties\<close>

subsection \<open>The bootstrap agent\<close>

text \<open>
  With the default timeout and a descriptor that never appears, the loop gives up at
  its first evaluation after the timeout, a tenth of a second late at most, with the
  timeout error; the exit status of the process does not enter the message.
\<close>

lemma poll_loop_gives_up:
  assumes "\<forall>n. \<not> path_exists env n" and "args_timeout a = PyInt t" and "0 \<le> t"
  shows "n \<le> nat (10 * t) + 1 \<Longrightarrow>
         poll_loop env a n = Inl (timeout_failure env a (kernel_poll env (nat (10 * t) + 1)))"
proof (induction "nat (10 * t) + 1 - n" arbitrary: n)
  case 0
  then have n: "n = nat (10 * t) + 1" by simp
  have "real n / 10 > real_of_int t" using n assms(3) by simp
  then show ?case using assms n by (subst poll_loop.simps) simp
next
  case (Suc k)
  then have lt: "n \<le> nat (10 * t)" by simp
  then have "\<not> real n / 10 > real_of_int t" using assms(3) by simp
  moreover have "poll_loop env a (Suc n) = Inl (timeout_failure env a (kernel_poll env (nat (10 * t) + 1)))"
    using Suc(1)[of "Suc n"] Suc(2) lt by simp
  ultimately show ?case using assms by (subst poll_loop.simps) simp
qed

lemma timeout_failure_ignores_status:
  "timeout_failure env a (Some r) = timeout_failure env a None"
  by (simp add: timeout_failure_def)

text \<open>
  C3. The engine process exits with status 3 and writes no descriptor. The agent fails
  only once the timeout has passed, with the message about the missing connection file
  and the log; the status 3 is not reported.
\<close>

theorem agent_exit_status_not_reported:
  "hydra_agent exited_agent_env default_cli =
     Inl (TimeoutError
       ''Failed to find connection file, did the kernel fail to start? See /run/jupyter/kernel-k1.log for details.'')"
proof -
  have t: "args_timeout (parse_args default_cli) = PyInt 10"
    by (simp add: parse_args_def default_cli_def)
  have n: "\<forall>n. \<not> path_exists exited_agent_env n"
    by (simp add: exited_agent_env_def)
  have l: "poll_loop exited_agent_env (parse_args default_cli) 0
             = Inl (timeout_failure exited_agent_env (parse_args default_cli)
                      (kernel_poll exited_agent_env (nat (10 * 10) + 1)))"
    by (rule poll_loop_gives_up[OF n t]) simp_all
  have m: "timeout_failure exited_agent_env (parse_args default_cli) (Some 3)
             = TimeoutError
       ''Failed to find connection file, did the kernel fail to start? See /run/jupyter/kernel-k1.log for details.''"
    by (simp add: timeout_failure_def log_file_def path_join_def parse_args_def default_cli_def
          exited_agent_env_def)
  have k: "\<And>i. kernel_poll exited_agent_env i = Some 3" "\<And>c. popen exited_agent_env c = Inr 4242"
    by (simp_all add: exited_agent_env_def)
  show ?thesis
    by (simp add: hydra_agent_def Let_def l k m del: poll_loop.simps)
qed

text \<open>
  C8. The caller gives \<^verbatim>\<open>--timeout 0.2\<close>, the process stays alive and writes no
  descriptor. The first comparison of the elapsed time with the timeout, a string,
  raises \<^verbatim>\<open>TypeError\<close>: the agent ends at once and not with the timeout error.
\<close>

theorem agent_given_timeout_type_error:
  "hydra_agent alive_agent_env (default_cli\<lparr>cli_timeout := Some ''0.2''\<rparr>) = Inl TypeError"
  by (simp add: hydra_agent_def Let_def poll_loop.simps parse_args_def default_cli_def alive_agent_env_def)

subsection \<open>ProxyComms: completion and forwarding\<close>

lemma handle_event_idle:
  "handle_event ev p w = (Inr p', w') \<Longrightarrow>
     priv_kernel_idle p' = (case ev of Iopub m \<Rightarrow> priv_kernel_idle p \<or> idle_status m | Shell m \<Rightarrow> priv_kernel_idle p)
   \<and> priv_reply_content p' = (case ev of Iopub m \<Rightarrow> priv_reply_content p
         | Shell m \<Rightarrow> if msg_type m = ''execute_reply'' then msg_content m else priv_reply_content p)"
  by (cases ev)
     (auto simp: handle_event_def on_iopub_message_def on_shell_message_def idle_status_def Let_def
           split: if_splits sum.splits)

lemma handle_event_raise:
  "handle_event ev p w = (Inl e, w') \<Longrightarrow> (\<exists>m. ev = Iopub m \<and> \<not> idle_status m)"
  by (cases ev)
     (auto simp: handle_event_def on_iopub_message_def on_shell_message_def idle_status_def Let_def
           split: if_splits sum.splits)

lemma run_proxy_flags:
  "priv_kernel_idle (fst (run_proxy evs p w)) = idle_observed (priv_kernel_idle p) evs
   \<and> priv_reply_content (fst (run_proxy evs p w)) = recorded_reply (priv_reply_content p) evs"
proof (induction evs arbitrary: p w)
  case Nil
  show ?case by simp
next
  case (Cons ev evs)
  obtain r w' where h: "handle_event ev p w = (r, w')" by (cases "handle_event ev p w")
  show ?case
  proof (cases r)
    case (Inl e)
    with h obtain m where "ev = Iopub m" "\<not> idle_status m" using handle_event_raise by blast
    with h Inl Cons.IH[of p w'] show ?thesis by simp
  next
    case (Inr p')
    with h have "handle_event ev p w = (Inr p', w')" by simp
    from handle_event_idle[OF this] h Inr Cons.IH[of p' w'] show ?thesis
      by (cases ev) simp_all
  qed
qed

lemma idle_observed_filter: "idle_observed b evs = idle_observed b (filter is_iopub evs)"
  by (induction b evs rule: idle_observed.induct) simp_all

lemma recorded_reply_filter:
  "recorded_reply r evs = recorded_reply r (filter (\<lambda>e. \<not> is_iopub e) evs)"
  by (induction r evs rule: recorded_reply.induct) simp_all

text \<open>
  After any run of the two handlers of a proxy, its reply is the payload of the latest
  execution reply if an idle status was among the broadcast messages, and \<^verbatim>\<open>None\<close>
  otherwise; two runs that interleave the same broadcast messages and the same control
  messages in different orders end with the same reply.
\<close>

lemma run_proxy_reply_content:
  assumes "filter is_iopub evs1 = filter is_iopub evs2"
    and "filter (\<lambda>e. \<not> is_iopub e) evs1 = filter (\<lambda>e. \<not> is_iopub e) evs2"
  shows "(reply_content p \<noteq> None \<longleftrightarrow> priv_kernel_idle p \<and> priv_reply_content p \<noteq> None)
       \<and> reply_content (fst (run_proxy evs1 p w1)) =
           (if idle_observed (priv_kernel_idle p) evs1
            then recorded_reply (priv_reply_content p) evs1 else None)
       \<and> reply_content (fst (run_proxy evs1 p w1)) = reply_content (fst (run_proxy evs2 p w2))"
proof -
  have a: "reply_content p \<noteq> None \<longleftrightarrow> priv_kernel_idle p \<and> priv_reply_content p \<noteq> None"
    by (simp add: reply_content_def)
  have b: "\<And>evs w. reply_content (fst (run_proxy evs p w)) =
           (if idle_observed (priv_kernel_idle p) evs
            then recorded_reply (priv_reply_content p) evs else None)"
    by (simp add: reply_content_def run_proxy_flags)
  have c: "idle_observed (priv_kernel_idle p) evs1 = idle_observed (priv_kernel_idle p) evs2"
    using assms(1) idle_observed_filter by metis
  have d: "recorded_reply (priv_reply_content p) evs1 = recorded_reply (priv_reply_content p) evs2"
    using assms(2) recorded_reply_filter by metis
  show ?thesis using a by (simp add: b c d)
qed

text \<open>
  The dispatcher's loop tests the reply for truthiness. A payload with a status entry,
  as every execution reply has, is a non-empty dictionary, so the loop ends as soon as
  such a reply is observable.
\<close>

lemma status_reply_ends_wait:
  assumes "reply_content p = Some r" and "subscript r ''status'' = Inr v"
  shows "truthy_opt (reply_content p)"
proof (cases r)
  case (JObj d)
  with assms(2) have "d \<noteq> []" by (auto simp: dict_item_def dict_get_def)
  with JObj assms(1) show ?thesis by simp
qed (use assms(2) in simp_all)

lemma sent_types_append: "sent_types (xs @ ys) = sent_types xs @ sent_types ys"
  by (induction xs rule: sent_types.induct) simp_all

lemma forwarded_append: "forwarded sinks (xs @ ys) = forwarded sinks xs @ forwarded sinks ys"
  by (induction sinks xs rule: forwarded.induct) simp_all

lemma foldl_session_send_calls:
  "calls (foldl (\<lambda>acc s. session_send s mt c p md acc) w sinks)
     = calls w @ map (\<lambda>s. Session_send s mt c p md) sinks"
  by (induction sinks arbitrary: w) (simp_all add: session_send_def)

lemma sent_types_map_send: "sent_types (map (\<lambda>s. Session_send s mt c p md) sinks) = replicate (length sinks) mt"
  by (induction sinks) simp_all

lemma on_shell_message_calls:
  "calls (snd (on_shell_message m p w)) =
     calls w @ (if msg_type m = ''execute_request'' then []
                else map (\<lambda>s. Session_send s (msg_type m) (msg_content m) (proxy_parent p) (msg_metadata m)) (shells p))"
  by (simp add: on_shell_message_def Let_def foldl_session_send_calls)

lemma on_iopub_message_calls:
  "calls (snd (on_iopub_message m p w)) =
     calls w @ [Session_send (iopub p) (msg_type m) (msg_content m) (proxy_parent p) (msg_metadata m)]"
  by (simp add: on_iopub_message_def Let_def session_send_def split: sum.splits)

lemma handle_event_static:
  "handle_event ev p w = (Inr p', w') \<Longrightarrow> shells p' = shells p \<and> iopub p' = iopub p \<and> proxy_parent p' = proxy_parent p"
  by (cases ev)
     (auto simp: handle_event_def on_iopub_message_def on_shell_message_def Let_def
           split: if_splits sum.splits)

lemma forwarded_map_send:
  "''execute_request'' \<in> set (forwarded sinks (map (\<lambda>s. Session_send s mt c p md) xs)) \<Longrightarrow> mt = ''execute_request''"
  by (induction xs) (auto split: if_splits)

lemma handle_event_forwards:
  assumes "iopub p \<notin> set (shells p)"
  shows "\<exists>new. calls (snd (handle_event ev p w)) = calls w @ new
           \<and> ''execute_request'' \<notin> set (forwarded (shells p) new)"
proof (cases ev)
  case (Iopub m)
  then show ?thesis using assms on_iopub_message_calls[of m p w]
    by (simp add: handle_event_def)
next
  case (Shell m)
  then show ?thesis using on_shell_message_calls[of m p w] forwarded_map_send
    by (auto simp: handle_event_def)
qed

lemma run_proxy_forwards:
  assumes "iopub p \<notin> set (shells p)"
  shows "\<exists>new. calls (snd (run_proxy evs p w)) = calls w @ new
           \<and> ''execute_request'' \<notin> set (forwarded (shells p) new)"
  using assms
proof (induction evs arbitrary: p w)
  case Nil
  then show ?case by simp
next
  case (Cons ev evs)
  obtain r w' where h: "handle_event ev p w = (r, w')" by (cases "handle_event ev p w")
  from handle_event_forwards[OF Cons.prems, of ev w] h obtain n1 where
    n1: "calls w' = calls w @ n1" "''execute_request'' \<notin> set (forwarded (shells p) n1)" by auto
  show ?case
  proof (cases r)
    case (Inl e)
    from Cons.IH[OF Cons.prems, of w'] obtain n2 where
      n2: "calls (snd (run_proxy evs p w')) = calls w' @ n2" "''execute_request'' \<notin> set (forwarded (shells p) n2)"
      by auto
    with n1 h Inl show ?thesis by (auto simp: forwarded_append)
  next
    case (Inr p')
    with h have hp: "handle_event ev p w = (Inr p', w')" by simp
    from handle_event_static[OF hp] Cons.prems have st: "shells p' = shells p" "iopub p' \<notin> set (shells p')" by auto
    from Cons.IH[OF st(2), of w'] st(1) obtain n2 where
      n2: "calls (snd (run_proxy evs p' w')) = calls w' @ n2" "''execute_request'' \<notin> set (forwarded (shells p) n2)"
      by auto
    with n1 h Inr show ?thesis by (auto simp: forwarded_append)
  qed
qed

text \<open>
  C5. A call of the control handler sends no message of type \<^verbatim>\<open>execute_request\<close>,
  and over any run of a proxy whose broadcast sink is not one of its control sinks, no
  message of that type is sent to a control sink.
\<close>

theorem shell_handler_never_forwards_request:
  assumes "iopub p \<notin> set (shells p)"
  shows "(\<exists>new. calls (snd (on_shell_message m p w)) = calls w @ new
            \<and> ''execute_request'' \<notin> set (sent_types new))
       \<and> (\<exists>new. calls (snd (run_proxy evs p w)) = calls w @ new
            \<and> ''execute_request'' \<notin> set (forwarded (shells p) new))"
proof -
  have "\<exists>new. calls (snd (on_shell_message m p w)) = calls w @ new
            \<and> ''execute_request'' \<notin> set (sent_types new)"
    using on_shell_message_calls[of m p w] by (auto simp: sent_types_map_send)
  then show ?thesis using run_proxy_forwards[OF assms] by blast
qed

theorem shell_handler_never_forwards_request_witness:
  "iopub proxy0 \<notin> set (shells proxy0)
   \<and> ''execute_request'' \<notin> set (sent_types (calls (snd (on_shell_message echo_msg proxy0 \<lparr>calls = []\<rparr>))))
   \<and> ''execute_request'' \<notin> set (forwarded (shells proxy0)
         (calls (snd (run_proxy [Shell echo_msg, Iopub idle_msg, Shell ok_reply_msg] proxy0 \<lparr>calls = []\<rparr>))))
   \<and> calls (snd (on_shell_message echo_msg proxy0 \<lparr>calls = []\<rparr>)) = []
   \<and> forwarded (shells proxy0)
         (calls (snd (run_proxy [Shell echo_msg, Iopub idle_msg, Shell ok_reply_msg] proxy0 \<lparr>calls = []\<rparr>)))
       = [''execute_reply'', ''execute_reply'']"
proof -
  have h: "iopub proxy0 \<notin> set (shells proxy0)"
    by (simp add: proxy0_def ProxyComms_def)
  note t = shell_handler_never_forwards_request[OF h, of echo_msg "\<lparr>calls = []\<rparr>"
      "[Shell echo_msg, Iopub idle_msg, Shell ok_reply_msg]"]
  have a: "''execute_request'' \<notin> set (sent_types (calls (snd (on_shell_message echo_msg proxy0 \<lparr>calls = []\<rparr>))))"
    using t by auto
  have b: "''execute_request'' \<notin> set (forwarded (shells proxy0)
         (calls (snd (run_proxy [Shell echo_msg, Iopub idle_msg, Shell ok_reply_msg] proxy0 \<lparr>calls = []\<rparr>))))"
    using t by auto
  have c: "calls (snd (on_shell_message echo_msg proxy0 \<lparr>calls = []\<rparr>)) = []"
    by (simp add: on_shell_message_def echo_msg_def)
  have d: "forwarded (shells proxy0)
         (calls (snd (run_proxy [Shell echo_msg, Iopub idle_msg, Shell ok_reply_msg] proxy0 \<lparr>calls = []\<rparr>)))
       = [''execute_reply'', ''execute_reply'']"
    by code_simp
  show ?thesis using h a b c d by simp
qed

subsection \<open>Traces of composed statements\<close>














lemma then_do_Inr:
  "then_do m f w = (Inr y, w') \<longleftrightarrow> (\<exists>x w1. m w = (Inr x, w1) \<and> f x w1 = (Inr y, w'))"
  by (cases "m w") (auto simp: then_do_def split: sum.splits)

lemma external_Inr:
  "external c a w = (Inr x, w') \<longleftrightarrow> a (calls w) = Inr x \<and> w' = w\<lparr>calls := calls w @ [c]\<rparr>"
  by (auto simp: external_def)

lemma lift_Inr: "lift r w = (Inr x, w') \<longleftrightarrow> r = Inr x \<and> w' = w"
  by (auto simp: lift_def)

lemma returns_Inr: "returns v w = (Inr x, w') \<longleftrightarrow> v = x \<and> w' = w"
  by (auto simp: returns_def)

lemma raises_Inr: "raises e w = (Inr x, w') \<longleftrightarrow> False"
  by (auto simp: raises_def)

lemmas Inr_simps = then_do_Inr external_Inr lift_Inr returns_Inr raises_Inr


lemma spawn_remote_Inr_aux:
  assumes "spawn_remote env km w = (Inr km', w')"
  shows "w' = w\<lparr>calls := calls w @ drop (length (calls w)) (calls w')\<rparr>
       \<and> drop (length (calls w)) (calls w')
           = Binding_exec (spawn_command km) # tl (drop (length (calls w)) (calls w'))
       \<and> list_all (\<lambda>c. \<not> is_spawn c \<and> c \<noteq> Abort_queues \<and> \<not> is_spec_call c) (tl (drop (length (calls w)) (calls w')))"
  using assms unfolding spawn_remote_def Let_def
  by (auto simp: Inr_simps split: option.splits if_splits prod.splits)

lemma spawn_remote_Inr:
  assumes "spawn_remote env km w = (Inr km', w')"
  shows "\<exists>new. w' = w\<lparr>calls := calls w @ Binding_exec (spawn_command km) # new\<rparr>
           \<and> list_all (\<lambda>c. \<not> is_spawn c \<and> c \<noteq> Abort_queues \<and> \<not> is_spec_call c) new"
  using spawn_remote_Inr_aux[OF assms] by metis

lemma lookup_kernel_spec_cases:
  "lookup_kernel_spec env km w =
     (case ext_get_kernel_spec env (calls w) (kernel_name km) of
        Inr u \<Rightarrow> (Inr u, w\<lparr>calls := calls w @ [Get_kernel_spec (kernel_name km)]\<rparr>)
      | Inl e \<Rightarrow>
          if e = NoSuchKernel then
            (ext_install_kernel_spec env (calls w @ [Get_kernel_spec (kernel_name km)]) (kernel_name km),
             w\<lparr>calls := calls w @ [Get_kernel_spec (kernel_name km), Install_kernel_spec (kernel_name km)]\<rparr>)
          else (Inl e, w\<lparr>calls := calls w @ [Get_kernel_spec (kernel_name km)]\<rparr>))"
  by (cases "ext_get_kernel_spec env (calls w) (kernel_name km)")
     (auto simp: lookup_kernel_spec_def try_except_def external_def elim: is_NoSuchKernel.elims)


subsection \<open>HydraKernelManager: the spawn result\<close>

lemma digit_char_is_digit: "is_digit (digit_char d)"
proof -
  have "d mod 10 < length ''0123456789''" by simp
  then have "''0123456789'' ! (d mod 10) \<in> set ''0123456789''" by (rule nth_mem)
  then show ?thesis by (simp only: is_digit_def digit_char_def)
qed

lemma string_of_nat_digits: "list_all is_digit (string_of_nat n)"
proof (induction n rule: string_of_nat.induct)
  case (1 n)
  show ?case
  proof (cases "n < 10")
    case True
    then show ?thesis by (subst string_of_nat.simps) (simp add: digit_char_is_digit)
  next
    case False
    with 1 show ?thesis by (subst string_of_nat.simps) (simp add: digit_char_is_digit)
  qed
qed

lemma string_of_nat_nonempty: "string_of_nat n \<noteq> []"
  by (subst string_of_nat.simps) simp

lemma digit_not_special:
  assumes "is_digit c"
  shows "c \<noteq> CHR 0x22" "c \<noteq> CHR ''{''" "c \<noteq> CHR ''[''" "c \<noteq> CHR ''n''" "c \<noteq> CHR ''t''"
    "c \<noteq> CHR ''f''" "c \<noteq> CHR ''-''" "\<not> is_ws c"
  using assms by (auto simp: is_digit_def is_ws_def)

lemma scan_nat_digits:
  assumes "list_all is_digit ds" and "ds \<noteq> []" and "\<not> is_digit c"
  shows "\<exists>n ds'. scan_nat (ds @ c # r) = Some (n, ds' @ c # r) \<and> list_all is_digit ds'"
proof -
  from assms(2) obtain d ds0 where ds: "ds = d # ds0" by (cases ds) auto
  with assms(1) have d: "is_digit d" and ds0: "list_all is_digit ds0" by simp_all
  show ?thesis
  proof (cases "d = CHR ''0''")
    case True
    with ds ds0 show ?thesis by (auto simp: scan_nat_def)
  next
    case False
    have "dropWhile is_digit (ds @ c # r) = c # r"
      using assms(1,3) by (simp add: dropWhile_append3 list_all_iff)
    with ds d False show ?thesis
      by (auto simp: scan_nat_def simp del: dropWhile.simps dropWhile_append3 intro: exI[of _ "[]"])
  qed
qed


lemma no_fraction_digits:
  assumes "list_all is_digit ds'" and "c = CHR 0x0A"
  shows "no_fraction (ds' @ c # r)"
proof (cases ds')
  case Nil
  with assms(2) show ?thesis by (simp add: no_fraction_def)
next
  case (Cons d ds0)
  with assms(1) have "is_digit d" by simp
  then have "d \<noteq> CHR ''.''" "d \<noteq> CHR ''e''" "d \<noteq> CHR ''E''" by (auto simp: is_digit_def)
  with Cons show ?thesis by (simp add: no_fraction_def)
qed

lemma scan_once_digits:
  assumes "list_all is_digit ds" and "ds \<noteq> []"
  shows "\<exists>i ds'. scan_once (Suc f) (ds @ CHR 0x0A # r) = Some (JInt i, ds' @ CHR 0x0A # r)"
proof -
  from assms(2) obtain d ds0 where ds: "ds = d # ds0" by (cases ds) auto
  with assms(1) have d: "is_digit d" by simp
  have nd: "\<not> is_digit (CHR 0x0A)" by (simp add: is_digit_def)
  from scan_nat_digits[OF assms nd, of r] obtain n ds' where
    sn: "scan_nat (ds @ CHR 0x0A # r) = Some (n, ds' @ CHR 0x0A # r)" and dd: "list_all is_digit ds'"
    by blast
  have nf: "no_fraction (ds' @ CHR 0x0A # r)" by (rule no_fraction_digits[OF dd refl])
  have "scan_number (ds @ CHR 0x0A # r) = Some (JInt (int n), ds' @ CHR 0x0A # r)"
    using sn nf ds digit_not_special(7)[OF d] by (simp add: scan_number_def)
  moreover have "scan_once (Suc f) (ds @ CHR 0x0A # r) = scan_number (ds @ CHR 0x0A # r)"
    using ds digit_not_special[OF d] by simp
  ultimately show ?thesis by auto
qed

text \<open>
  Whatever the process id and the descriptor, what the agent prints is not a document
  with a connection field: the decoder rejects it, or (for a blank descriptor) yields a
  bare integer, which has no fields. The remote spawn then always ends in an exception.
\<close>

lemma agent_output_never_decodes:
  "json_load (string_of_nat pid @ [CHR 0x0A] @ contents @ [CHR 0x0A]) = Inl JSONDecodeError
   \<or> (\<exists>i. json_load (string_of_nat pid @ [CHR 0x0A] @ contents @ [CHR 0x0A]) = Inr (JInt i))"
proof -
  let ?out = "string_of_nat pid @ [CHR 0x0A] @ contents @ [CHR 0x0A]"
  obtain d ds0 where ds: "string_of_nat pid = d # ds0"
    using string_of_nat_nonempty[of pid] by (cases "string_of_nat pid") auto
  with string_of_nat_digits[of pid] have "is_digit d" by simp
  then have "\<not> is_ws d" by (rule digit_not_special)
  with ds have sk: "skip_ws ?out = ?out" by (simp add: skip_ws_def)
  from scan_once_digits[OF string_of_nat_digits string_of_nat_nonempty, of "length ?out" pid "contents @ [CHR 0x0A]"]
  obtain i ds' where "scan_once (Suc (length ?out)) ?out = Some (JInt i, ds' @ CHR 0x0A # contents @ [CHR 0x0A])"
    by auto
  with sk show ?thesis by (simp add: json_load_def del: scan_once.simps)
qed

lemma spawn_remote_agent_output_fails:
  assumes "km_binding km = Some b"
    and "ext_binding_exec env (calls w) b (spawn_command km)
           = Inr (code, string_of_nat pid @ [CHR 0x0A] @ contents @ [CHR 0x0A], err)"
  shows "isl (fst (spawn_remote env km w))"
  using assms agent_output_never_decodes[of pid contents]
  unfolding spawn_remote_def
  by (auto simp: then_do_def external_def lift_def)

lemma string_of_nat_4242: "string_of_nat 4242 = ''4242''"
  by (simp add: string_of_nat.simps digit_char_def)

lemma ok_agent_poll: "poll_loop ok_agent_env (parse_args default_cli) 0 = Inr ()"
  by (simp add: poll_loop.simps ok_agent_env_def parse_args_def default_cli_def)

lemma ok_agent_output: "hydra_agent ok_agent_env default_cli
     = Inr (''4242'' @ [CHR 0x0A] @ ''{\"shell_port\": 5001, \"iopub_port\": 5002}'' @ [CHR 0x0A])"
proof -
  have p: "\<And>c. popen ok_agent_env c = Inr 4242"
    and r: "read_connection_file ok_agent_env = Inr ''{\"shell_port\": 5001, \"iopub_port\": 5002}''"
    by (simp_all add: ok_agent_env_def)
  show ?thesis
    by (simp add: hydra_agent_def Let_def ok_agent_poll p r string_of_nat_4242
             del: poll_loop.simps)
qed

lemma agent_output_extra_data: "json_load (''4242'' @ [CHR 0x0A] @ ''{\"shell_port\": 5001, \"iopub_port\": 5002}'' @ [CHR 0x0A]) = Inl JSONDecodeError"
  by code_simp

text \<open>
  C2. A successful run of the bootstrap agent prints the process id, a newline and the
  descriptor. Given that output as the spawn result, \<^verbatim>\<open>pre_start_kernel\<close> fails in
  \<^verbatim>\<open>json.load\<close>: after the number the decoder finds extra data. No connection
  information is loaded and the start of the handle ends there.
\<close>

theorem agent_output_not_decoded:
  "hydra_agent ok_agent_env default_cli
     = Inr (''4242'' @ [CHR 0x0A] @ ''{\"shell_port\": 5001, \"iopub_port\": 5002}'' @ [CHR 0x0A])
   \<and> pre_start_kernel agent_spawn_env km0 \<lparr>calls = []\<rparr>
       = (Inl JSONDecodeError,
          \<lparr>calls = [Get_kernel_spec ''python3'', Binding_exec ''hydra spawn k1 python3'']\<rparr>)"
proof -
  have e: "\<And>tr b c. ext_binding_exec agent_spawn_env tr b c
             = Inr (0, ''4242'' @ [CHR 0x0A] @ ''{\"shell_port\": 5001, \"iopub_port\": 5002}'' @ [CHR 0x0A], [])"
    by (simp add: agent_spawn_env_def ok_agent_output)
  have g: "\<And>tr n. ext_get_kernel_spec agent_spawn_env tr n = Inr ()"
    by (simp add: agent_spawn_env_def spawn_env_def)
  have c: "spawn_command km0 = ''hydra spawn k1 python3''"
    by code_simp
  have k: "kernel_name km0 = ''python3''" "km_binding km0 = Some binding0" by (simp_all add: km0_def)
  have "pre_start_kernel agent_spawn_env km0 \<lparr>calls = []\<rparr>
       = (Inl JSONDecodeError,
          \<lparr>calls = [Get_kernel_spec ''python3'', Binding_exec ''hydra spawn k1 python3'']\<rparr>)"
    unfolding pre_start_kernel_def spawn_remote_def then_do_def lookup_kernel_spec_cases
    using agent_output_extra_data by (simp add: e g c k external_def lift_def del: append.simps)
  with ok_agent_output show ?thesis by blast
qed


subsection \<open>The success path of a spawn\<close>

lemma load_connection_info_id:
  "load_connection_info info km = Inr km1 \<Longrightarrow> km_id km1 = km_id km"
  by (cases info) auto

lemma set_ports_id: "km_id (set_ports ports km) = km_id km"
  by (cases ports) (simp add: set_ports_def)



lemma spawn_remote_Inr_id:
  assumes "spawn_remote env km w = (Inr km', w')"
  shows "km_id km' = km_id km"
  using assms unfolding spawn_remote_def Let_def
  apply (auto simp: Inr_simps set_ports_id split: option.splits if_splits prod.splits)
    apply (metis load_connection_info_id)+
  done

lemma spec_call_not_spawn: "is_spec_call c \<Longrightarrow> \<not> is_spawn c \<and> c \<noteq> Abort_queues"
  by (cases c) simp_all

lemma lookup_kernel_spec_Inr:
  assumes "lookup_kernel_spec env km w = (Inr u, w')"
  shows "\<exists>new. w' = w\<lparr>calls := calls w @ new\<rparr> \<and> list_all is_spec_call new"
proof (cases "ext_get_kernel_spec env (calls w) (kernel_name km)")
  case (Inr v)
  with assms have "w' = w\<lparr>calls := calls w @ [Get_kernel_spec (kernel_name km)]\<rparr>"
    by (simp add: lookup_kernel_spec_cases)
  then show ?thesis by (intro exI[of _ "[Get_kernel_spec (kernel_name km)]"]) simp
next
  case (Inl e)
  with assms have "w' = w\<lparr>calls := calls w @ [Get_kernel_spec (kernel_name km), Install_kernel_spec (kernel_name km)]\<rparr>"
    by (simp add: lookup_kernel_spec_cases split: if_splits)
  then show ?thesis
    by (intro exI[of _ "[Get_kernel_spec (kernel_name km), Install_kernel_spec (kernel_name km)]"]) simp
qed


lemma super_pre_start_kernel_Inr:
  assumes "super_pre_start_kernel env km w = (Inr u, w')"
  shows "\<exists>new. w' = w\<lparr>calls := calls w @ new\<rparr> \<and> filter is_spawn new = []
           \<and> Abort_queues \<notin> set new"
proof (cases "kernel_name km = []")
  case True
  with assms have "w' = w\<lparr>calls := calls w @ [Super_pre_start_kernel (km_id km)]\<rparr>"
    by (auto simp: super_pre_start_kernel_def Inr_simps)
  then show ?thesis by (intro exI[of _ "[Super_pre_start_kernel (km_id km)]"]) simp
next
  case False
  with assms have "w' = w\<lparr>calls := calls w @ [Get_kernel_spec (kernel_name km),
                                               Super_pre_start_kernel (km_id km)]\<rparr>"
    by (auto simp: super_pre_start_kernel_def Inr_simps)
  then show ?thesis
    by (intro exI[of _ "[Get_kernel_spec (kernel_name km), Super_pre_start_kernel (km_id km)]"]) simp
qed

lemma pre_start_kernel_Inr:
  assumes "pre_start_kernel env km w = (Inr km', w')"
  shows "\<exists>new. w' = w\<lparr>calls := calls w @ new\<rparr> \<and> spawn_count new = 1
           \<and> Abort_queues \<notin> set new \<and> km_id km' = km_id km"
proof -
  from assms obtain u w1 v w2 where l: "lookup_kernel_spec env km w = (Inr u, w1)"
    and r: "spawn_remote env km w1 = (Inr km', w2)"
    and p: "super_pre_start_kernel env km' w2 = (Inr v, w')"
    by (auto simp: pre_start_kernel_def then_do_Inr returns_Inr)
  from lookup_kernel_spec_Inr[OF l] obtain n1 where
    n1: "w1 = w\<lparr>calls := calls w @ n1\<rparr>" "list_all is_spec_call n1" by blast
  from spawn_remote_Inr[OF r] obtain n2 where
    n2: "w2 = w1\<lparr>calls := calls w1 @ Binding_exec (spawn_command km) # n2\<rparr>"
        "list_all (\<lambda>c. \<not> is_spawn c \<and> c \<noteq> Abort_queues \<and> \<not> is_spec_call c) n2" by blast
  from super_pre_start_kernel_Inr[OF p] obtain n3 where
    n3: "w' = w2\<lparr>calls := calls w2 @ n3\<rparr>" "filter is_spawn n3 = []" "Abort_queues \<notin> set n3"
    by blast
  have c1: "filter is_spawn n1 = []" "Abort_queues \<notin> set n1"
    using n1(2) spec_call_not_spawn by (auto simp: list_all_iff filter_empty_conv)
  have c2: "filter is_spawn n2 = []" "Abort_queues \<notin> set n2"
    using n2(2) by (auto simp: list_all_iff filter_empty_conv)
  have "w' = w\<lparr>calls := calls w @ (n1 @ Binding_exec (spawn_command km) # n2 @ n3)\<rparr>"
    using n1(1) n2(1) n3(1) by simp
  moreover have "spawn_count (n1 @ Binding_exec (spawn_command km) # n2 @ n3) = 1"
    using c1 c2 n3(2) by (simp add: spawn_count_def)
  moreover have "Abort_queues \<notin> set (n1 @ Binding_exec (spawn_command km) # n2 @ n3)"
    using c1 c2 n3(3) by simp
  ultimately show ?thesis using spawn_remote_Inr_id[OF r] by blast
qed

lemma start_kernel_Inr:
  assumes "start_kernel env name b s = (Inr kid, s1)"
  shows "\<exists>new km'. s1 = s\<lparr>calls := calls s @ new, managed := (managed s)(kid \<mapsto> km')\<rparr>
           \<and> km_id km' = kid \<and> spawn_count new = 1 \<and> Abort_queues \<notin> set new"
proof -
  let ?km = "init_binding b \<lparr> km_id = [], kernel_name = name, tunnel = cfg_tunnel env,
                 km_binding = None, conn_info = [] \<rparr> \<lparr>km_id := kid\<rparr>"
  let ?s0 = "s\<lparr>calls := calls s @ [New_kernel_manager name]\<rparr>"
  from assms obtain km' w2 where
    p: "pre_start_kernel env ?km ?s0 = (Inr km', w2)"
    and s1: "s1 = w2\<lparr>calls := calls w2 @ [Launch_kernel kid], managed := (managed w2)(kid \<mapsto> km')\<rparr>"
    by (auto simp: start_kernel_def multi_pre_start_kernel_def Inr_simps)
  from pre_start_kernel_Inr[OF p] obtain n where
    n: "w2 = ?s0\<lparr>calls := calls ?s0 @ n\<rparr>" "spawn_count n = 1" "Abort_queues \<notin> set n"
       "km_id km' = km_id ?km" by blast
  have "s1 = s\<lparr>calls := calls s @ (New_kernel_manager name # n @ [Launch_kernel kid]),
               managed := (managed s)(kid \<mapsto> km')\<rparr>"
    using s1 n(1) by simp
  moreover have "spawn_count (New_kernel_manager name # n @ [Launch_kernel kid]) = 1"
    using n(2) by (simp add: spawn_count_def)
  moreover have "Abort_queues \<notin> set (New_kernel_manager name # n @ [Launch_kernel kid])"
    using n(3) by simp
  moreover have "km_id km' = kid" using n(4) by (simp add: init_binding_def)
  ultimately show ?thesis by blast
qed

lemma try_except_Inr:
  "try_except m ok h w = (Inr x, w') \<longleftrightarrow>
     m w = (Inr x, w') \<or> (\<exists>e w1. m w = (Inl e, w1) \<and> ok e \<and> h e w1 = (Inr x, w'))"
  by (cases "m w") (auto simp: try_except_def split: sum.splits)

lemma get_kernel_Inr: "get_kernel kid s = (Inr km, s') \<longleftrightarrow> managed s kid = Some km \<and> s' = s"
  by (auto simp: get_kernel_def split: option.splits)

lemma spawn_kernel_Inr:
  assumes "spawn_kernel env b s = (Inr (km, kc), s1)"
  shows "\<exists>new. calls s1 = calls s @ new \<and> spawn_count new = 1 \<and> Abort_queues \<notin> set new
           \<and> proxies s1 = proxies s \<and> shell_streams s1 = shell_streams s \<and> kernels s1 = kernels s
           \<and> kc = \<lparr> shell_channel = HydraChannel, iopub_channel = HydraChannel \<rparr>"
proof -
  from assms obtain kid sa where
    st: "start_kernel env (binding_kernel b) b s = (Inr kid, sa)"
    and km: "managed sa kid = Some km"
    and cl: "ext_km_client env (calls sa) (km_id km) = Inr ()"
    and ch: "ext_start_channels env (calls sa @ [Km_client (km_id km)]) (km_id km) = Inr ()"
    and s1: "s1 = sa\<lparr>calls := calls sa @ [Km_client (km_id km), Start_channels (km_id km)]\<rparr>"
    and kc: "kc = \<lparr> shell_channel = HydraChannel, iopub_channel = HydraChannel \<rparr>"
    by (auto simp: spawn_kernel_def Inr_simps try_except_Inr get_kernel_Inr)
  from start_kernel_Inr[OF st] obtain n km' where
    n: "sa = s\<lparr>calls := calls s @ n, managed := (managed s)(kid \<mapsto> km')\<rparr>"
       "spawn_count n = 1" "Abort_queues \<notin> set n" by blast
  let ?new = "n @ [Km_client (km_id km), Start_channels (km_id km)]"
  have "calls s1 = calls s @ ?new" using s1 n(1) by simp
  moreover have "spawn_count ?new = 1" using n(2) by (simp add: spawn_count_def)
  moreover have "Abort_queues \<notin> set ?new" using n(3) by simp
  moreover have "proxies s1 = proxies s" "shell_streams s1 = shell_streams s" "kernels s1 = kernels s"
    using s1 n(1) by simp_all
  ultimately show ?thesis using kc by blast
qed

lemma ensure_cached: "kernels s name = Some h \<Longrightarrow> ensure env name s = (Inr h, s)"
  by (simp add: ensure_def then_do_def)

lemma ensure_Inr_fresh:
  assumes "kernels s name = None" and "ensure env name s = (Inr h, s1)"
  shows "\<exists>new. calls s1 = calls s @ new \<and> spawn_count new = 1 \<and> Abort_queues \<notin> set new
           \<and> proxies s1 = proxies s \<and> shell_streams s1 = shell_streams s
           \<and> kernels s1 = (kernels s)(name \<mapsto> h)"
proof -
  from assms obtain b h' sb where
    g: "ext_binding_manager_get env (calls s) name = Inr b"
    and sp: "spawn_kernel env b (s\<lparr>calls := calls s @ [Binding_manager_get name]\<rparr>) = (Inr h', sb)"
    and s1: "s1 = sb\<lparr>kernels := (kernels sb)(name \<mapsto> h')\<rparr>"
    and h: "h = h'"
    by (auto simp: ensure_def Inr_simps split: option.splits)
  obtain km kc where hk: "h' = (km, kc)" by (cases h')
  from spawn_kernel_Inr[OF sp[unfolded hk]] obtain n where
    n: "calls sb = calls (s\<lparr>calls := calls s @ [Binding_manager_get name]\<rparr>) @ n"
       "spawn_count n = 1" "Abort_queues \<notin> set n"
       "proxies sb = proxies s" "shell_streams sb = shell_streams s" "kernels sb = kernels s"
    by auto
  let ?new = "Binding_manager_get name # n"
  have "calls s1 = calls s @ ?new" using s1 n(1) by simp
  moreover have "spawn_count ?new = 1" using n(2) by (simp add: spawn_count_def)
  moreover have "Abort_queues \<notin> set ?new" using n(3) by simp
  moreover have "proxies s1 = proxies s" "shell_streams s1 = shell_streams s"
    "kernels s1 = (kernels s)(name \<mapsto> h)"
    using s1 n h by simp_all
  ultimately show ?thesis by blast
qed

lemma ensure_Inr:
  assumes "ensure env name s = (Inr h, s1)"
  shows "kernels s1 name = Some h \<and> proxies s1 = proxies s \<and> shell_streams s1 = shell_streams s
       \<and> (\<exists>new. calls s1 = calls s @ new \<and> Abort_queues \<notin> set new)"
proof (cases "kernels s name")
  case None
  from ensure_Inr_fresh[OF None assms] show ?thesis by auto
next
  case (Some h')
  with assms ensure_cached[OF Some, of env] show ?thesis by auto
qed

lemma ensure_times_cached:
  "kernels s name = Some h \<Longrightarrow> ensure_times env name n s = (Inr (replicate n h), s)"
  by (induction n) (simp_all add: ensure_cached)

subsection \<open>HydraKernelManager: the engine-type spec\<close>



subsection \<open>The cache of delegated engines\<close>

text \<open>
  C4. When the first \<open>ensure\<close> for a name that is not cached returns a handle, it has
  spawned exactly once and cached the handle; every later call for the name returns
  that handle and changes nothing, so \<open>N\<close> calls in a row give \<open>N\<close> times the same handle
  and one spawn.
\<close>

theorem ensure_spawns_once:
  assumes "kernels s name = None" and "ensure env name s = (Inr h, s1)"
  shows "spawn_count (calls s1) = spawn_count (calls s) + 1
       \<and> kernels s1 name = Some h
       \<and> ensure_times env name (Suc n) s = (Inr (replicate (Suc n) h), s1)
       \<and> ensure_times env name n s1 = (Inr (replicate n h), s1)"
proof -
  from ensure_Inr_fresh[OF assms] obtain new where
    new: "calls s1 = calls s @ new" "spawn_count new = 1" "kernels s1 = (kernels s)(name \<mapsto> h)"
    by blast
  have k: "kernels s1 name = Some h" using new(3) by simp
  have c: "spawn_count (calls s1) = spawn_count (calls s) + 1"
    using new(1,2) by (simp add: spawn_count_def)
  have t: "ensure_times env name n s1 = (Inr (replicate n h), s1)"
    by (rule ensure_times_cached[OF k])
  have "ensure_times env name (Suc n) s = (Inr (replicate (Suc n) h), s1)"
    using assms(2) t by simp
  with k c t show ?thesis by blast
qed


theorem ensure_spawns_once_witness:
  "kernels hydra0 (JStr ''gpu'') = None
   \<and> fst (ensure spawn_env (JStr ''gpu'') hydra0) = Inr handle0
   \<and> spawn_count (calls (snd (ensure spawn_env (JStr ''gpu'') hydra0))) = 1
   \<and> fst (ensure_times spawn_env (JStr ''gpu'') 3 hydra0) = Inr [handle0, handle0, handle0]
   \<and> snd (ensure_times spawn_env (JStr ''gpu'') 3 hydra0) = snd (ensure spawn_env (JStr ''gpu'') hydra0)"
proof -
  let ?s1 = "snd (ensure spawn_env (JStr ''gpu'') hydra0)"
  have a: "kernels hydra0 (JStr ''gpu'') = None" by (simp add: hydra0_def)
  have f: "fst (ensure spawn_env (JStr ''gpu'') hydra0) = Inr handle0" by code_simp
  then have b: "ensure spawn_env (JStr ''gpu'') hydra0 = (Inr handle0, ?s1)"
    by (simp add: prod_eq_iff)
  have z: "spawn_count (calls hydra0) = 0" by (simp add: hydra0_def spawn_count_def)
  have n: "replicate (Suc 2) handle0 = [handle0, handle0, handle0]" by (simp add: numeral_2_eq_2)
  have t: "(3::nat) = Suc 2" by simp
  from ensure_spawns_once[OF a b, of 2] a f z show ?thesis
    unfolding t n by simp
qed

subsection \<open>Failures while the channels start\<close>

text \<open>
  C9, as the claim states it: the channels fail to start with an exception that is not
  a \<^verbatim>\<open>RuntimeError\<close>. It propagates, and the engine, launched two calls earlier, is not
  shut down: a half-open engine is left behind.
\<close>

theorem other_failure_no_teardown:
  "fst (spawn_kernel os_error_env binding0 hydra0) = Inl (OSError ''Address already in use'')
   \<and> calls (snd (spawn_kernel os_error_env binding0 hydra0))
       = [New_kernel_manager ''python3'', Get_kernel_spec ''python3'',
          Binding_exec ''hydra spawn k1 python3'', Get_kernel_spec ''python3'',
          Super_pre_start_kernel ''k1'', Launch_kernel ''k1'', Km_client ''k1'',
          Start_channels ''k1'']"
  by code_simp

lemma spawn_kernel_channel_failure:
  assumes "start_kernel env (binding_kernel b) b s = (Inr kid, s1)"
    and "managed s1 kid = Some km" and "km_id km = kid"
  shows "spawn_kernel env b s =
     (case ext_km_client env (calls s1) kid of
        Inl e \<Rightarrow>
          (if is_RuntimeError e then
             (case ext_shutdown_kernel env (calls s1 @ [Km_client kid]) kid of
                Inl e' \<Rightarrow> Inl e' | Inr u \<Rightarrow> Inl e,
              s1\<lparr>calls := calls s1 @ [Km_client kid, Shutdown_kernel kid]\<rparr>)
           else (Inl e, s1\<lparr>calls := calls s1 @ [Km_client kid]\<rparr>))
      | Inr u \<Rightarrow>
          (case ext_start_channels env (calls s1 @ [Km_client kid]) kid of
             Inl e \<Rightarrow>
               (if is_RuntimeError e then
                  (case ext_shutdown_kernel env (calls s1 @ [Km_client kid, Start_channels kid]) kid of
                     Inl e' \<Rightarrow> Inl e' | Inr u \<Rightarrow> Inl e,
                   s1\<lparr>calls := calls s1 @ [Km_client kid, Start_channels kid, Shutdown_kernel kid]\<rparr>)
                else (Inl e, s1\<lparr>calls := calls s1 @ [Km_client kid, Start_channels kid]\<rparr>))
           | Inr u \<Rightarrow>
               (Inr (km, \<lparr> shell_channel = HydraChannel, iopub_channel = HydraChannel \<rparr>),
                s1\<lparr>calls := calls s1 @ [Km_client kid, Start_channels kid]\<rparr>)))"
proof -
  have g: "get_kernel kid s1 = (Inr km, s1)" using assms(2) by (simp add: get_kernel_def)
  have "spawn_kernel env b s =
     then_do
       (try_except
          (then_do (external (Km_client (km_id km)) (\<lambda>tr. ext_km_client env tr (km_id km)))
             (\<lambda>_.
           then_do (external (Start_channels (km_id km)) (\<lambda>tr. ext_start_channels env tr (km_id km)))
             (\<lambda>_. returns \<lparr> shell_channel = HydraChannel, iopub_channel = HydraChannel \<rparr>)))
          is_RuntimeError
          (\<lambda>e. then_do
                  (external (Shutdown_kernel (km_id km)) (\<lambda>tr. ext_shutdown_kernel env tr (km_id km)))
                  (\<lambda>_. raises e)))
       (\<lambda>kc. returns (km, kc)) s1"
    using assms(1) g
    by (simp add: spawn_kernel_def then_do_def[of "start_kernel env (binding_kernel b) b"]
          then_do_def[of "get_kernel kid"])
  then show ?thesis
    unfolding assms(3)
    by (simp add: then_do_def try_except_def external_def raises_def returns_def
          split: sum.splits)
qed

lemma start_kernel_launched:
  assumes "start_kernel env name b s = (Inr kid, s1)"
  shows "last (calls s1) = Launch_kernel kid"
  using assms
  by (auto simp: start_kernel_def multi_pre_start_kernel_def Inr_simps)


text \<open>
  C9, amended. The engine has been launched. When the making of the client or the start
  of its channels then raises a \<^verbatim>\<open>RuntimeError\<close>, the last thing \<^verbatim>\<open>spawn_kernel\<close> does is
  to shut the engine down, and then the error propagates (or the exception of the
  shutdown, if it raises). When either of the two raises an exception of any other type,
  that exception propagates at once and the launched engine is not shut down: it is left
  half-open. In both cases the handle is not cached.
\<close>

theorem channel_failure_teardown:
  assumes "start_kernel env (binding_kernel b) b s = (Inr kid, s1)"
    and "ext_km_client env (calls s1) kid = Inl e
         \<or> (ext_km_client env (calls s1) kid = Inr ()
            \<and> ext_start_channels env (calls s1 @ [Km_client kid]) kid = Inl e)"
  shows "\<exists>T. T = (if ext_km_client env (calls s1) kid = Inr ()
                   then [Km_client kid, Start_channels kid] else [Km_client kid])
           \<and> (if is_RuntimeError e
               then calls (snd (spawn_kernel env b s)) = calls s1 @ T @ [Shutdown_kernel kid]
                    \<and> fst (spawn_kernel env b s) =
                        (case ext_shutdown_kernel env (calls s1 @ T) kid of
                           Inl e' \<Rightarrow> Inl e'
                         | Inr u \<Rightarrow> Inl e)
               else calls (snd (spawn_kernel env b s)) = calls s1 @ T
                    \<and> fst (spawn_kernel env b s) = Inl e)
           \<and> kernels (snd (spawn_kernel env b s)) = kernels s
           \<and> last (calls s1) = Launch_kernel kid"
proof -
  from start_kernel_Inr[OF assms(1)] obtain n km where
    s1: "s1 = s\<lparr>calls := calls s @ n, managed := (managed s)(kid \<mapsto> km)\<rparr>" and id: "km_id km = kid"
    by blast
  then have mg: "managed s1 kid = Some km" by simp
  have k: "kernels s1 = kernels s" using s1 by simp
  note l = start_kernel_launched[OF assms(1)]
  note eq = spawn_kernel_channel_failure[OF assms(1) mg id]
  from assms(2) show ?thesis
  proof
    assume c: "ext_km_client env (calls s1) kid = Inl e"
    show ?thesis
    proof (cases "is_RuntimeError e")
      case True
      with eq c k l show ?thesis by simp
    next
      case False
      with eq c k l show ?thesis by simp
    qed
  next
    assume c: "ext_km_client env (calls s1) kid = Inr ()
            \<and> ext_start_channels env (calls s1 @ [Km_client kid]) kid = Inl e"
    show ?thesis
    proof (cases "is_RuntimeError e")
      case True
      with eq c k l show ?thesis by simp
    next
      case False
      with eq c k l show ?thesis by simp
    qed
  qed
qed

theorem channel_failure_teardown_witness:
  "fst (start_kernel runtime_error_env (binding_kernel binding0) binding0 hydra0) = Inr ''k1''
   \<and> ext_km_client runtime_error_env
        (calls (snd (start_kernel runtime_error_env (binding_kernel binding0) binding0 hydra0))) ''k1'' = Inr ()
   \<and> ext_start_channels runtime_error_env
        (calls (snd (start_kernel runtime_error_env (binding_kernel binding0) binding0 hydra0))
           @ [Km_client ''k1'']) ''k1'' = Inl (RuntimeError ''Channels already stopped'')
   \<and> fst (spawn_kernel runtime_error_env binding0 hydra0) = Inl (RuntimeError ''Channels already stopped'')
   \<and> last (calls (snd (spawn_kernel runtime_error_env binding0 hydra0))) = Shutdown_kernel ''k1''
   \<and> fst (start_kernel client_error_env (binding_kernel binding0) binding0 hydra0) = Inr ''k1''
   \<and> ext_km_client client_error_env
        (calls (snd (start_kernel client_error_env (binding_kernel binding0) binding0 hydra0))) ''k1''
       = Inl (OSError ''Too many open files'')
   \<and> fst (spawn_kernel client_error_env binding0 hydra0) = Inl (OSError ''Too many open files'')
   \<and> last (calls (snd (spawn_kernel client_error_env binding0 hydra0))) = Km_client ''k1''"
proof -
  let ?st = "start_kernel runtime_error_env (binding_kernel binding0) binding0 hydra0"
  let ?sc = "start_kernel client_error_env (binding_kernel binding0) binding0 hydra0"
  have f: "fst ?st = Inr ''k1''" by code_simp
  then have a: "?st = (Inr ''k1'', snd ?st)" by (simp add: prod_eq_iff)
  have c: "ext_km_client runtime_error_env (calls (snd ?st)) ''k1'' = Inr ()"
    by (simp add: runtime_error_env_def spawn_env_def)
  have d: "ext_start_channels runtime_error_env (calls (snd ?st) @ [Km_client ''k1'']) ''k1''
             = Inl (RuntimeError ''Channels already stopped'')"
    by (simp add: runtime_error_env_def)
  have e: "\<And>tr. ext_shutdown_kernel runtime_error_env tr ''k1'' = Inr ()"
    by (simp add: runtime_error_env_def spawn_env_def)
  have r: "is_RuntimeError (RuntimeError ''Channels already stopped'')" by simp
  from channel_failure_teardown[OF a disjI2[OF conjI[OF c d]]]
  have t1: "calls (snd (spawn_kernel runtime_error_env binding0 hydra0))
              = calls (snd ?st) @ [Km_client ''k1'', Start_channels ''k1''] @ [Shutdown_kernel ''k1'']
            \<and> fst (spawn_kernel runtime_error_env binding0 hydra0)
              = (case ext_shutdown_kernel runtime_error_env
                        (calls (snd ?st) @ [Km_client ''k1'', Start_channels ''k1'']) ''k1'' of
                   Inl e' \<Rightarrow> Inl e' | Inr u \<Rightarrow> Inl (RuntimeError ''Channels already stopped''))"
    unfolding if_P[OF r] if_P[OF c] by blast
  have r1: "fst (spawn_kernel runtime_error_env binding0 hydra0) = Inl (RuntimeError ''Channels already stopped'')"
    using t1 by (simp add: e)
  have r2: "last (calls (snd (spawn_kernel runtime_error_env binding0 hydra0))) = Shutdown_kernel ''k1''"
    using t1 by simp
  have f': "fst ?sc = Inr ''k1''" by code_simp
  then have a': "?sc = (Inr ''k1'', snd ?sc)" by (simp add: prod_eq_iff)
  have c': "ext_km_client client_error_env (calls (snd ?sc)) ''k1'' = Inl (OSError ''Too many open files'')"
    by (simp add: client_error_env_def)
  have nr: "\<not> is_RuntimeError (OSError ''Too many open files'')" by simp
  have nc: "\<not> ext_km_client client_error_env (calls (snd ?sc)) ''k1'' = Inr ()"
    by (simp add: c')
  from channel_failure_teardown[OF a' disjI1[OF c']]
  have t2: "calls (snd (spawn_kernel client_error_env binding0 hydra0))
              = calls (snd ?sc) @ [Km_client ''k1'']
            \<and> fst (spawn_kernel client_error_env binding0 hydra0) = Inl (OSError ''Too many open files'')"
    unfolding if_not_P[OF nr] if_not_P[OF nc] by blast
  have r3: "last (calls (snd (spawn_kernel client_error_env binding0 hydra0))) = Km_client ''k1''"
    using t2 by simp
  from f c d r1 r2 f' c' t2 r3 show ?thesis by blast
qed

subsection \<open>The engine-type spec during ensure\<close>










subsection \<open>The dispatcher: abort policy and unsubscription\<close>

lemma abort_count_append: "abort_count (xs @ ys) = abort_count xs + abort_count ys"
  by (simp add: abort_count_def)

lemma abort_count_sends: "abort_count (map (\<lambda>s. Session_send s mt c p md) sinks) = 0"
  by (induction sinks) (simp_all add: abort_count_def)

lemma on_iopub_message_no_abort:
  "abort_count (calls (snd (on_iopub_message m p w))) = abort_count (calls w)"
  by (simp add: on_iopub_message_calls abort_count_def)

lemma on_shell_message_no_abort:
  "abort_count (calls (snd (on_shell_message m p w))) = abort_count (calls w)"
  by (simp add: on_shell_message_calls abort_count_append abort_count_sends)
     (simp add: abort_count_def)

lemma call_handler_no_abort:
  "abort_count (calls (snd (call_handler h m s))) = abort_count (calls s)"
proof (cases h)
  case (On_iopub_message i)
  obtain r s1 where e: "on_iopub_message m (proxies s ! i) s = (r, s1)"
    by (cases "on_iopub_message m (proxies s ! i) s")
  with on_iopub_message_no_abort[of m "proxies s ! i" s]
  have "abort_count (calls s1) = abort_count (calls s)" by simp
  with On_iopub_message e show ?thesis
    by (cases r) (simp_all add: call_handler_def)
next
  case (On_shell_message i)
  obtain r s1 where e: "on_shell_message m (proxies s ! i) s = (r, s1)"
    by (cases "on_shell_message m (proxies s ! i) s")
  with on_shell_message_no_abort[of m "proxies s ! i" s]
  have "abort_count (calls s1) = abort_count (calls s)" by simp
  with On_shell_message e show ?thesis
    by (cases r) (simp_all add: call_handler_def)
qed

lemma call_each_no_abort:
  "abort_count (calls (snd (call_each hs m s))) = abort_count (calls s)"
proof (induction hs arbitrary: s)
  case Nil
  show ?case by simp
next
  case (Cons h hs)
  obtain r s1 where e: "call_handler h m s = (r, s1)" by (cases "call_handler h m s")
  with call_handler_no_abort[of h m s] have a: "abort_count (calls s1) = abort_count (calls s)"
    by simp
  show ?case using e a Cons.IH[of s1] by (cases r) simp_all
qed

lemma deliver_no_abort: "abort_count (calls (deliver kc ev s)) = abort_count (calls s)"
  by (cases ev) (simp_all add: deliver_def call_handlers_def call_each_no_abort)

lemma deliver_all_no_abort: "abort_count (calls (deliver_all kc evs s)) = abort_count (calls s)"
  unfolding deliver_all_def
  by (induction evs arbitrary: s) (simp_all add: deliver_no_abort)

lemma wait_reply_no_abort:
  "wait_reply i kc batches s = Some s' \<Longrightarrow> abort_count (calls s') = abort_count (calls s)"
proof (induction batches arbitrary: s)
  case Nil
  then show ?case by (simp split: if_splits)
next
  case (Cons b bs)
  show ?case
  proof (cases "truthy_opt (reply_content (proxies s ! i))")
    case True
    with Cons.prems show ?thesis by simp
  next
    case False
    with Cons.prems have "wait_reply i kc bs (deliver_all kc b s) = Some s'" by simp
    from Cons.IH[OF this] show ?thesis by (simp add: deliver_all_no_abort)
  qed
qed

lemma ensure_no_abort:
  assumes "ensure env name s = (Inr h, s1)"
  shows "abort_count (calls s1) = abort_count (calls s)"
proof -
  from ensure_Inr[OF assms] obtain new where "calls s1 = calls s @ new" "Abort_queues \<notin> set new"
    by blast
  then show ?thesis by (auto simp: abort_count_def filter_empty_conv)
qed

lemma must_abort_True:
  "must_abort silent reply stop = Inr True \<longleftrightarrow>
     \<not> truthy silent \<and> (\<exists>r. reply = Some r \<and> subscript r ''status'' = Inr (JStr ''error''))
     \<and> truthy stop"
  by (auto simp: must_abort_def split: option.splits sum.splits)

text \<open>
  C6. A delegated request that completes aborts the caller's queued requests once if the
  request is not silent, the status of the recorded reply is "error" and stop-on-error
  is set (it is when the request does not mention it); otherwise it does not abort.
\<close>

theorem abort_iff_error_and_stop_on_error:
  assumes "dict_get (parent_metadata p) ''chameleon.binding_name'' = Some bn" and "truthy bn"
    and "dict_item (parent_content p) ''silent'' = Inr silent"
    and "execute_request env p s = Some (Inr (), s')"
  shows "abort_count (calls s') = abort_count (calls s) +
           (if \<not> truthy silent
               \<and> (\<exists>r. reply_content (proxies s' ! length (proxies s)) = Some r
                       \<and> subscript r ''status'' = Inr (JStr ''error''))
               \<and> truthy (case dict_get (parent_content p) ''stop_on_error'' of
                            None \<Rightarrow> JBool True | Some v \<Rightarrow> v)
            then 1 else 0)"
proof -
  let ?stop = "case dict_get (parent_content p) ''stop_on_error'' of None \<Rightarrow> JBool True | Some v \<Rightarrow> v"
  from assms obtain km kc s1 where en: "ensure env bn s = (Inr (km, kc), s1)"
    unfolding execute_request_def Let_def
    by (auto split: sum.splits prod.splits option.splits bool.splits if_splits)
  from ensure_Inr[OF en] have px: "proxies s1 = proxies s" by simp
  let ?i = "length (proxies s1)"
  let ?m = "\<lparr> msg_type = ''execute_request'', msg_content = Some (JObj (parent_content p)),
              msg_metadata = Some (JObj []) \<rparr>"
  let ?kc2 = "kc\<lparr>iopub_channel := pipe (On_iopub_message ?i) (iopub_channel kc),
                 shell_channel := pipe (On_shell_message ?i) (shell_channel kc)\<rparr>"
  let ?s4 = "s1\<lparr>proxies := proxies s1 @ [ProxyComms p Iopub_socket (shell_streams s1)],
                 calls := calls s1 @ [Channel_send (km_id km) ?m],
                 kernels := (kernels s1)(bn \<mapsto> (km, ?kc2))\<rparr>"
  from assms en obtain s5 where w: "wait_reply ?i ?kc2 (arrivals env (calls ?s4)) ?s4 = Some s5"
    unfolding execute_request_def Let_def
    by (auto split: sum.splits prod.splits option.splits bool.splits if_splits)
  let ?s7 = "deliver_all ?kc2 (map Iopub (flushed env (calls s5)))
               (s5\<lparr>calls := calls s5 @ [Channel_flush (km_id km)]\<rparr>)"
  let ?kc4 = "?kc2\<lparr>iopub_channel := unpipe (iopub_channel ?kc2),
                   shell_channel := unpipe (shell_channel ?kc2)\<rparr>"
  let ?s8 = "?s7\<lparr>kernels := (kernels ?s7)(bn \<mapsto> (km, ?kc4))\<rparr>"
  let ?reply = "reply_content (proxies ?s8 ! ?i)"
  from assms en w obtain ab where
    ma: "must_abort silent ?reply ?stop = Inr ab"
    and s': "s' = (if ab then ?s8\<lparr>calls := calls ?s8 @ [Abort_queues]\<rparr> else ?s8)"
    unfolding execute_request_def Let_def
    by (auto simp: external_def split: sum.splits prod.splits option.splits bool.splits if_splits)
  have c4: "abort_count (calls ?s4) = abort_count (calls s)"
    using ensure_no_abort[OF en] by (simp add: abort_count_def)
  have c5: "abort_count (calls s5) = abort_count (calls s)"
    using wait_reply_no_abort[OF w] c4 by simp
  have c8: "abort_count (calls ?s8) = abort_count (calls s)"
    using c5 by (simp add: deliver_all_no_abort) (simp add: abort_count_def)
  have pr: "proxies s' = proxies ?s8" using s' by simp
  have cnt: "abort_count (calls s') = abort_count (calls s) + (if ab then 1 else 0)"
    using s' c8 by (simp add: abort_count_def)
  have "ab \<longleftrightarrow> \<not> truthy silent
               \<and> (\<exists>r. reply_content (proxies s' ! length (proxies s)) = Some r
                       \<and> subscript r ''status'' = Inr (JStr ''error''))
               \<and> truthy ?stop"
  proof (cases ab)
    case True
    with ma must_abort_True[of silent ?reply ?stop] pr px show ?thesis by simp
  next
    case False
    with ma must_abort_True[of silent ?reply ?stop] pr px show ?thesis by simp
  qed
  with cnt show ?thesis by simp
qed


theorem abort_iff_error_and_stop_on_error_witness:
  "dict_get (parent_metadata parent0) ''chameleon.binding_name'' = Some (JStr ''gpu'')
   \<and> truthy (JStr ''gpu'')
   \<and> dict_item (parent_content parent0) ''silent'' = Inr (JBool False)
   \<and> map_option fst (execute_request error_env parent0 hydra0) = Some (Inr ())
   \<and> abort_count (calls (snd (the (execute_request error_env parent0 hydra0)))) = 1
   \<and> dict_get (parent_metadata parent_go_on) ''chameleon.binding_name'' = Some (JStr ''gpu'')
   \<and> dict_item (parent_content parent_go_on) ''silent'' = Inr (JBool False)
   \<and> map_option fst (execute_request error_env parent_go_on hydra0) = Some (Inr ())
   \<and> abort_count (calls (snd (the (execute_request error_env parent_go_on hydra0)))) = 0"
proof -
  let ?r1 = "execute_request error_env parent0 hydra0"
  let ?r2 = "execute_request error_env parent_go_on hydra0"
  have b1: "dict_get (parent_metadata parent0) ''chameleon.binding_name'' = Some (JStr ''gpu'')"
    and b2: "dict_get (parent_metadata parent_go_on) ''chameleon.binding_name'' = Some (JStr ''gpu'')"
    and t: "truthy (JStr ''gpu'')"
    and q1: "dict_item (parent_content parent0) ''silent'' = Inr (JBool False)"
    and q2: "dict_item (parent_content parent_go_on) ''silent'' = Inr (JBool False)"
    by (simp_all add: parent0_def parent_go_on_def dict_get_def dict_item_def)
  have f1: "map_option fst ?r1 = Some (Inr ())" by code_simp
  have f2: "map_option fst ?r2 = Some (Inr ())" by code_simp
  from f1 have e1: "?r1 = Some (Inr (), snd (the ?r1))" by (cases ?r1) auto
  from f2 have e2: "?r2 = Some (Inr (), snd (the ?r2))" by (cases ?r2) auto
  have z: "abort_count (calls hydra0) = 0" "length (proxies hydra0) = 0"
    by (simp_all add: hydra0_def abort_count_def)
  have r1: "reply_content (proxies (snd (the ?r1)) ! 0)
              = Some (JObj [(''status'', JStr ''error''), (''ename'', JStr ''ZeroDivisionError'')])"
    by code_simp
  have s1: "dict_get (parent_content parent0) ''stop_on_error'' = Some (JBool True)"
    and s2: "dict_get (parent_content parent_go_on) ''stop_on_error'' = Some (JBool False)"
    by (simp_all add: parent0_def parent_go_on_def dict_get_def)
  have st: "subscript (JObj [(''status'', JStr ''error''), (''ename'', JStr ''ZeroDivisionError'')]) ''status''
              = Inr (JStr ''error'')"
    by (simp add: dict_item_def dict_get_def)
  have c1: "\<not> truthy (JBool False)
       \<and> (\<exists>r. reply_content (proxies (snd (the ?r1)) ! length (proxies hydra0)) = Some r
               \<and> subscript r ''status'' = Inr (JStr ''error''))
       \<and> truthy (case dict_get (parent_content parent0) ''stop_on_error'' of
                    None \<Rightarrow> JBool True | Some v \<Rightarrow> v)"
    using r1 st s1 z(2) by simp
  have c2: "\<not> (\<not> truthy (JBool False)
       \<and> (\<exists>r. reply_content (proxies (snd (the ?r2)) ! length (proxies hydra0)) = Some r
               \<and> subscript r ''status'' = Inr (JStr ''error''))
       \<and> truthy (case dict_get (parent_content parent_go_on) ''stop_on_error'' of
                    None \<Rightarrow> JBool True | Some v \<Rightarrow> v))"
    using s2 by simp
  have a1: "abort_count (calls (snd (the ?r1))) = 1"
    using abort_iff_error_and_stop_on_error[OF b1 t q1 e1, unfolded if_P[OF c1]] z(1) by simp
  have a2: "abort_count (calls (snd (the ?r2))) = 0"
    using abort_iff_error_and_stop_on_error[OF b2 t q2 e2, unfolded if_not_P[OF c2]] z(1) by simp
  from b1 b2 t q1 q2 f1 f2 a1 a2 show ?thesis by blast
qed

text \<open>
  C10. \<^verbatim>\<open>unpipe\<close> empties the list of handlers whatever it held, and after a delegated
  request has completed, the shell and iopub channels of the handle cached for its
  target have no handler left, whoever had piped them.
\<close>

theorem unpipe_clears_all_handlers:
  assumes "dict_get (parent_metadata p) ''chameleon.binding_name'' = Some bn" and "truthy bn"
    and "execute_request env p s = Some (Inr (), s')"
  shows "pipes (unpipe ch) = []
       \<and> (\<exists>km kc. kernels s' bn = Some (km, kc)
             \<and> pipes (shell_channel kc) = [] \<and> pipes (iopub_channel kc) = [])"
  using assms unfolding execute_request_def Let_def
  by (auto simp: external_def unpipe_def split: sum.splits prod.splits option.splits bool.splits if_splits)

theorem unpipe_clears_all_handlers_witness:
  "dict_get (parent_metadata parent0) ''chameleon.binding_name'' = Some (JStr ''gpu'')
   \<and> truthy (JStr ''gpu'')
   \<and> map_option (pipes \<circ> iopub_channel \<circ> snd) (kernels stale_kernel (JStr ''gpu'')) = Some [On_iopub_message 0]
   \<and> map_option fst (execute_request error_env parent0 stale_kernel) = Some (Inr ())
   \<and> pipes (unpipe \<lparr> pipes = [On_iopub_message 0, On_iopub_message 1] \<rparr>) = []
   \<and> (\<exists>km kc. kernels (snd (the (execute_request error_env parent0 stale_kernel))) (JStr ''gpu'') = Some (km, kc)
         \<and> pipes (shell_channel kc) = [] \<and> pipes (iopub_channel kc) = [])"
proof -
  let ?r = "execute_request error_env parent0 stale_kernel"
  have b: "dict_get (parent_metadata parent0) ''chameleon.binding_name'' = Some (JStr ''gpu'')"
    and t: "truthy (JStr ''gpu'')"
    by (simp_all add: parent0_def dict_get_def)
  have k: "map_option (pipes \<circ> iopub_channel \<circ> snd) (kernels stale_kernel (JStr ''gpu'')) = Some [On_iopub_message 0]"
    by (simp add: stale_kernel_def)
  have f: "map_option fst ?r = Some (Inr ())" by code_simp
  then have e: "?r = Some (Inr (), snd (the ?r))" by (cases ?r) auto
  from unpipe_clears_all_handlers[OF b t e, of "\<lparr> pipes = [On_iopub_message 0, On_iopub_message 1] \<rparr>"]
    b t k f show ?thesis by blast
qed

subsection \<open>The dispatcher: the wait for the reply\<close>











lemma idle_status_not_reply: "idle_status m \<Longrightarrow> msg_type m \<noteq> ''execute_reply''"
  by (auto simp: idle_status_def)














end
